theory Spec2Isabelle
  imports Complex_Main "HOL-Library.Word" "HOL-Library.AList"
begin

unbundle bit_operations_syntax

section \<open>GORB core: the Context, the pulse notification loop, store reconciliation\<close>

text \<open>
  A shallow embedding of package \<open>core\<close> of qk4l/gorb: \<open>options.go\<close>, the service and
  backend entities, the Context with its mutators, \<open>runtime.go\<close> (the notification loop)
  and the store comparison and synchronisation.

  Conventions of the embedding.
  \<^item> Go maps that the code iterates (\<open>ctx.services\<close>, \<open>Service.backends\<close>, the desired
    state) are association lists; a \<open>range\<close> statement visits the entries in list order,
    so a theorem about every list covers every iteration order. Lookup is \<open>map_of\<close>,
    assignment \<open>AList.update\<close>, \<open>delete\<close> is \<open>AList.delete\<close>. The stash is never
    iterated and is a map \<open>pulse.ID \<rightharpoonup> int32\<close>.
  \<^item> Pointers to structs are in-place updates of the owning map entry. The back pointer
    \<open>Backend.service\<close> is the owning service (the only constructor, \<open>Service.CreateBackend\<close>,
    sets it so), hence \<open>rs.service.options\<close> is read from the owning service.
  \<^item> \<open>int32\<close> weights are \<open>int\<close>: the code adds at most one to zero and never
    overflows them. \<open>uint16\<close> values are \<open>16 word\<close>, so \<open>uint16(len(m))\<close> wraps.
  \<^item> \<open>float64\<close> values are the reals they denote (no NaN, no infinity), and every
    floating point operation is the exact operation followed by the rounding \<open>fl\<close> of
    the environment, which is a parameter. \<open>int32(x)\<close> of a float discards the fraction;
    what Go does when \<open>x\<close> is out of range is not modelled.
  \<^item> The mutex is dropped: every operation is modelled as it runs alone.
  \<^item> Logging, the Disco announcer (its errors are only logged) and the pulse probe
    handle are left out; \<open>pulse.Options\<close> is not a field of the options records.
  \<^item> Errors wrapped with \<open>fmt.Errorf("%w ...")\<close> are the wrapped error.
\<close>

subsection \<open>External collaborators\<close>

type_synonym IP = "nat list" \<comment> \<open>\<open>net.IP\<close>, a byte slice; \<open>nil\<close> is the empty list\<close>

datatype error =
    ErrIpvsSyscallFailed | ErrObjectExists | ErrObjectNotFound | ErrIncompatibleAFs
  | ErrMissingEndpoint | ErrUnknownMethod | ErrUnknownProtocol | ErrUnknownFlag
  | ErrUnknownFallbackFlag
  | ErrResolve \<comment> \<open>the error of \<open>net.ResolveIPAddr\<close>\<close>
  | ErrPulse \<comment> \<open>the error of \<open>pulse.New\<close>\<close>
  | ErrServiceDoesntExist \<comment> \<open>\<open>GetPoolForService\<close>: "service doesn't exist"\<close>

text \<open>The descriptors of the netlink library (\<open>gnl2go.Service\<close>, \<open>Dest\<close>, \<open>Pool\<close>), with
  the fields the daemon fills. \<open>Flags\<close> keeps the argument of \<open>gnl2go.U32ToBinFlags\<close>
  (\<open>None\<close> is the nil byte slice).\<close>

record gnl2go_Service =
  Proto :: "16 word"
  VIP :: string
  SPort :: "16 word"
  Sched :: string
  Flags :: "int option"

record gnl2go_Dest =
  DIP :: string
  DWeight :: int
  DPort :: "16 word"

record gnl2go_Pool =
  PService :: gnl2go_Service
  Dests :: "gnl2go_Dest list"

text \<open>The mutating methods of interface \<open>Ipvs\<close>, as the calls the Context makes.\<close>

datatype ipvs_call =
    AddService string "16 word" "16 word" string
  | AddServiceWithFlags string "16 word" "16 word" string int
  | DelService string "16 word" "16 word"
  | AddDestPort string "16 word" string "16 word" "16 word" int "32 word"
  | UpdateDestPort string "16 word" string "16 word" "16 word" int "32 word"
  | DelDestPort string "16 word" string "16 word" "16 word"

text \<open>Everything the package calls and does not define: the IPVS driver over a kernel
  state \<open>'k\<close> (\<open>ipvs c k = (True, k')\<close> when call \<open>c\<close> returns a nil error), the
  library's \<open>Service.IsEqual\<close>, the resolver, \<open>strings.ToLower\<close>, \<open>util.AddrFamily\<close>,
  \<open>net.IP.String\<close>, \<open>netlink.AddrAdd\<close> (true when it returns nil), \<open>pulse.New\<close>
  (true when it returns a probe), and the rounding \<open>fl\<close> of an exact result to the
  nearest \<open>float64\<close>.\<close>

record 'k Env =
  ipvs :: "ipvs_call \<Rightarrow> 'k \<Rightarrow> bool \<times> 'k"
  GetPools :: "'k \<Rightarrow> gnl2go_Pool list option"
  IsEqual :: "gnl2go_Service \<Rightarrow> gnl2go_Service \<Rightarrow> bool"
  ResolveIPAddr :: "string \<Rightarrow> IP option"
  ToLower :: "string \<Rightarrow> string"
  AddrFamily :: "IP \<Rightarrow> int"
  IPString :: "IP \<Rightarrow> string"
  AddrAdd :: "string \<Rightarrow> bool"
  pulseNew :: "string \<Rightarrow> 16 word \<Rightarrow> bool"
  fl :: "real \<Rightarrow> real"

subsection \<open>options.go\<close>

record ServiceOptions =
  Host :: string
  Port :: "16 word"
  Protocol :: string
  LbMethod :: string
  ShFlags :: string
  Persistent :: bool
  Fallback :: string
  FwdMethod :: string
  MaxWeight :: int
  host :: IP
  delIfAddr :: bool
  protocol :: "16 word"
  methodID :: "32 word"

record BackendOptions =
  bHost :: string
  bPort :: "16 word"
  b_vsID :: string
  b_host :: IP
  weight :: int

text \<open>The constants of \<open>gnl2go\<close> and \<open>syscall\<close> that the package names, with the values
  of the kernel headers. Of the scheduler flags the code only asks whether their union is
  zero; the protocol and forwarding numbers are only passed on to the driver.\<close>

definition IP_VS_SVC_F_SCHED1 :: int where "IP_VS_SVC_F_SCHED1 = 8"
definition IP_VS_SVC_F_SCHED2 :: int where "IP_VS_SVC_F_SCHED2 = 16"
definition IP_VS_SVC_F_SCHED3 :: int where "IP_VS_SVC_F_SCHED3 = 32"
definition IP_VS_SVC_F_SCHED_SH_FALLBACK :: int where
  "IP_VS_SVC_F_SCHED_SH_FALLBACK = IP_VS_SVC_F_SCHED1"
definition IP_VS_SVC_F_SCHED_SH_PORT :: int where
  "IP_VS_SVC_F_SCHED_SH_PORT = IP_VS_SVC_F_SCHED2"

definition IPPROTO_TCP :: "16 word" where "IPPROTO_TCP = 6"
definition IPPROTO_UDP :: "16 word" where "IPPROTO_UDP = 17"

definition IPVS_MASQUERADING :: "32 word" where "IPVS_MASQUERADING = 0"
definition IPVS_TUNNELING :: "32 word" where "IPVS_TUNNELING = 2"
definition IPVS_DIRECTROUTE :: "32 word" where "IPVS_DIRECTROUTE = 3"

definition schedulerFlags :: "string \<rightharpoonup> int" where
  "schedulerFlags = map_of
     [(''sh-fallback'', IP_VS_SVC_F_SCHED_SH_FALLBACK),
      (''sh-port'', IP_VS_SVC_F_SCHED_SH_PORT),
      (''flag-1'', IP_VS_SVC_F_SCHED1),
      (''flag-2'', IP_VS_SVC_F_SCHED2),
      (''flag-3'', IP_VS_SVC_F_SCHED3)]"

definition Default :: int where "Default = 0"
definition ZeroToOne :: int where "ZeroToOne = 1"

definition fallbackFlags :: "string \<rightharpoonup> int" where
  "fallbackFlags = map_of [(''fb-default'', Default), (''fb-zero-to-one'', ZeroToOne)]"

text \<open>\<open>strings.Split(s, "|")\<close> for a one-byte separator: the empty string splits
  into one empty token.\<close>

fun Split :: "string \<Rightarrow> char \<Rightarrow> string list" where
  "Split [] sep = [[]]"
| "Split (c # cs) sep =
     (if c = sep then [] # Split cs sep
      else (case Split cs sep of [] \<Rightarrow> [[c]] | w # ws \<Rightarrow> (c # w) # ws))"

definition bindE :: "error + 'a \<Rightarrow> ('a \<Rightarrow> error + 'b) \<Rightarrow> error + 'b" where
  "bindE m f = (case m of Inl e \<Rightarrow> Inl e | Inr x \<Rightarrow> f x)"

text \<open>\<open>ServiceOptions.Validate\<close>: each stage is one block of the source, in its order.\<close>

definition validateHost :: "'k Env \<Rightarrow> IP option \<Rightarrow> ServiceOptions \<Rightarrow> error + ServiceOptions" where
  "validateHost env defaultHost opts =
     (if Host opts \<noteq> [] then
        (case ResolveIPAddr env (Host opts) of
           Some ip \<Rightarrow> Inr (opts\<lparr>host := ip\<rparr>)
         | None \<Rightarrow> Inl ErrResolve)
      else (case defaultHost of
           Some ip \<Rightarrow> Inr (opts\<lparr>host := ip\<rparr>)
         | None \<Rightarrow> Inl ErrMissingEndpoint))"

definition validateProtocol :: "'k Env \<Rightarrow> ServiceOptions \<Rightarrow> error + ServiceOptions" where
  "validateProtocol env opts =
     (let o1 = (if Protocol opts = [] then opts\<lparr>Protocol := ''tcp''\<rparr> else opts);
          o2 = o1\<lparr>Protocol := ToLower env (Protocol o1)\<rparr>
      in if Protocol o2 = ''tcp'' then Inr (o2\<lparr>protocol := IPPROTO_TCP\<rparr>)
         else if Protocol o2 = ''udp'' then Inr (o2\<lparr>protocol := IPPROTO_UDP\<rparr>)
         else Inl ErrUnknownProtocol)"

definition validateShFlags :: "ServiceOptions \<Rightarrow> error + ServiceOptions" where
  "validateShFlags opts =
     (if ShFlags opts \<noteq> [] \<and> (\<exists>flag \<in> set (Split (ShFlags opts) CHR ''|''). schedulerFlags flag = None)
      then Inl ErrUnknownFlag else Inr opts)"

definition validateFallback :: "ServiceOptions \<Rightarrow> error + ServiceOptions" where
  "validateFallback opts =
     (if Fallback opts \<noteq> [] then
        (if \<exists>flag \<in> set (Split (Fallback opts) CHR ''|''). fallbackFlags flag = None
         then Inl ErrUnknownFallbackFlag else Inr opts)
      else Inr (opts\<lparr>Fallback := ''fb-default''\<rparr>))"

definition validateMethod :: "'k Env \<Rightarrow> ServiceOptions \<Rightarrow> error + ServiceOptions" where
  "validateMethod env opts =
     (let o1 = (if LbMethod opts = [] then opts\<lparr>LbMethod := ''wrr''\<rparr> else opts);
          o2 = (if MaxWeight o1 \<le> 0 then o1\<lparr>MaxWeight := 100\<rparr> else o1);
          o3 = (if FwdMethod o2 = [] then o2\<lparr>FwdMethod := ''nat''\<rparr> else o2);
          o4 = o3\<lparr>FwdMethod := ToLower env (FwdMethod o3)\<rparr>
      in if FwdMethod o4 = ''dr'' then Inr (o4\<lparr>methodID := IPVS_DIRECTROUTE\<rparr>)
         else if FwdMethod o4 = ''nat'' then Inr (o4\<lparr>methodID := IPVS_MASQUERADING\<rparr>)
         else if FwdMethod o4 = ''tunnel'' \<or> FwdMethod o4 = ''ipip''
           then Inr (o4\<lparr>methodID := IPVS_TUNNELING\<rparr>)
         else Inl ErrUnknownMethod)"

definition Validate :: "'k Env \<Rightarrow> IP option \<Rightarrow> ServiceOptions \<Rightarrow> error + ServiceOptions" where
  "Validate env defaultHost opts =
     (if Port opts = 0 then Inl ErrMissingEndpoint
      else bindE (validateHost env defaultHost opts) (\<lambda>o1.
           bindE (validateProtocol env o1) (\<lambda>o2.
           bindE (validateShFlags o2) (\<lambda>o3.
           bindE (validateFallback o3) (\<lambda>o4.
           validateMethod env o4)))))"

definition CompareStoreOptions :: "ServiceOptions \<Rightarrow> ServiceOptions \<Rightarrow> bool" where
  "CompareStoreOptions opts options =
     (if Host opts \<noteq> Host options then False
      else if Port opts \<noteq> Port options then False
      else if Protocol opts \<noteq> Protocol options then False
      else if ShFlags opts \<noteq> ShFlags options then False
      else if LbMethod opts \<noteq> LbMethod options then False
      else if Persistent opts \<noteq> Persistent options then False
      else if Fallback opts \<noteq> Fallback options then False
      else if FwdMethod opts \<noteq> FwdMethod options then False
      else if MaxWeight opts \<noteq> MaxWeight options then False
      else True)"

definition ValidateBackend :: "'k Env \<Rightarrow> BackendOptions \<Rightarrow> error + BackendOptions" where
  "ValidateBackend env opts =
     (if bHost opts = [] \<or> bPort opts = 0 then Inl ErrMissingEndpoint
      else (case ResolveIPAddr env (bHost opts) of
              Some ip \<Rightarrow> Inr (opts\<lparr>b_host := ip\<rparr>)
            | None \<Rightarrow> Inl ErrResolve))"

definition CompareStoreOptionsBackend :: "BackendOptions \<Rightarrow> BackendOptions \<Rightarrow> bool" where
  "CompareStoreOptionsBackend opts options =
     (if bHost opts \<noteq> bHost options then False
      else if bPort opts \<noteq> bPort options then False
      else True)"

subsection \<open>Entities\<close>

text \<open>Modelled from the spec: the types \<open>StatusType\<close>, \<open>Metrics\<close>, \<open>ID\<close> and \<open>Update\<close> of
  package \<open>pulse\<close>, whose declarations are not among the source files. An update has a
  source (vsID, rsID) and metrics: a status among Up, Down and Removed, a health and an
  uptime. The code reads them as \<open>u.Source.VsID\<close>, \<open>u.Source.RsID\<close>,
  \<open>u.Metrics.Status\<close> and \<open>u.Metrics.Health\<close>.\<close>

datatype StatusType = StatusUp | StatusDown | StatusRemoved

record Metrics =
  MStatus :: StatusType
  MHealth :: real
  MUptime :: int

record ID =
  VsID :: string
  RsID :: string

record Update =
  Source :: ID
  UMetrics :: Metrics

record Backend =
  boptions :: BackendOptions
  metrics :: Metrics

record Service =
  vsID :: string
  options :: ServiceOptions
  svc :: gnl2go_Service
  backends :: "(string \<times> Backend) list"

record ServiceInfo =
  Options :: ServiceOptions
  Health :: real
  Backends :: "string list"
  BackendsCount :: "16 word"
  FallBack :: string

definition GetHealth :: "Backend \<Rightarrow> real" where
  "GetHealth rs = MHealth (metrics rs)"

definition UpdateWeight :: "Backend \<Rightarrow> int \<Rightarrow> int \<times> Backend" where
  "UpdateWeight rs w = (weight (boptions rs), rs\<lparr>boptions := (boptions rs)\<lparr>weight := w\<rparr>\<rparr>)"

definition BackendExist :: "Service \<Rightarrow> string \<Rightarrow> bool" where
  "BackendExist vs rid = (case map_of (backends vs) rid of Some _ \<Rightarrow> True | None \<Rightarrow> False)"

text \<open>\<open>Service.CalcServiceStat\<close>. The count is \<open>uint16(len(vs.backends))\<close>; the loop
  adds the healths in iteration order, rounding each sum, and collects the keys.\<close>

definition CalcServiceStat :: "'k Env \<Rightarrow> Service \<Rightarrow> ServiceInfo" where
  "CalcServiceStat env vs =
     (let cnt = (of_nat (length (backends vs)) :: 16 word)
      in if cnt \<noteq> 0 then
           \<lparr>Options = options vs,
            Health = fl env (foldl (\<lambda>h (rsKey, rs). fl env (h + GetHealth rs)) 0 (backends vs)
                             / of_nat (unat cnt)),
            Backends = foldl (\<lambda>ks (rsKey, rs). ks @ [rsKey]) [] (backends vs),
            BackendsCount = cnt,
            FallBack = Fallback (options vs)\<rparr>
         else
           \<lparr>Options = options vs, Health = 0, Backends = [], BackendsCount = cnt,
            FallBack = Fallback (options vs)\<rparr>)"

subsection \<open>The Context\<close>

record 'k Context =
  services :: "(string \<times> Service) list"
  endpoint :: "IP option"
  vipInterface :: "string option"
  kernel :: 'k
  calls :: "ipvs_call list" \<comment> \<open>the driver calls made so far, oldest first\<close>

definition callIpvs :: "'k Env \<Rightarrow> ipvs_call \<Rightarrow> 'k Context \<Rightarrow> bool \<times> 'k Context" where
  "callIpvs env c ctx =
     (case ipvs env c (kernel ctx) of
        (ok, k') \<Rightarrow> (ok, ctx\<lparr>kernel := k', calls := calls ctx @ [c]\<rparr>))"

text \<open>Writing through the pointers \<open>ctx.services[vsID]\<close> and \<open>vs.backends[rsID]\<close>.\<close>

definition putService :: "string \<Rightarrow> Service \<Rightarrow> 'k Context \<Rightarrow> 'k Context" where
  "putService vid vs ctx = ctx\<lparr>services := AList.update vid vs (services ctx)\<rparr>"

definition putBackend :: "string \<Rightarrow> string \<Rightarrow> Backend \<Rightarrow> 'k Context \<Rightarrow> 'k Context" where
  "putBackend vid rid rs ctx =
     (case map_of (services ctx) vid of
        None \<Rightarrow> ctx
      | Some vs \<Rightarrow> putService vid (vs\<lparr>backends := AList.update rid rs (backends vs)\<rparr>) ctx)"

definition GetService :: "'k Env \<Rightarrow> 'k Context \<Rightarrow> string \<Rightarrow> error + ServiceInfo" where
  "GetService env ctx vid =
     (case map_of (services ctx) vid of
        None \<Rightarrow> Inl ErrObjectNotFound
      | Some vs \<Rightarrow> Inr (CalcServiceStat env vs))"

definition updateBackend ::
  "'k Env \<Rightarrow> string \<Rightarrow> string \<Rightarrow> int \<Rightarrow> 'k Context \<Rightarrow> (error + int) \<times> 'k Context" where
  "updateBackend env vid rid w ctx =
     (case map_of (services ctx) vid of
        None \<Rightarrow> (Inl ErrObjectNotFound, ctx)
      | Some vs \<Rightarrow>
          (case map_of (backends vs) rid of
             None \<Rightarrow> (Inl ErrObjectNotFound, ctx)
           | Some rs \<Rightarrow>
               (case callIpvs env
                   (UpdateDestPort (IPString env (host (options vs))) (Port (options vs))
                      (IPString env (b_host (boptions rs))) (bPort (boptions rs))
                      (protocol (options vs)) w (methodID (options vs))) ctx of
                  (ok, ctx1) \<Rightarrow>
                    if \<not> ok then (Inl ErrIpvsSyscallFailed, ctx1)
                    else (case UpdateWeight rs w of
                            (prevWeight, rs') \<Rightarrow> (Inr prevWeight, putBackend vid rid rs' ctx1)))))"

definition UpdateBackend ::
  "'k Env \<Rightarrow> string \<Rightarrow> string \<Rightarrow> int \<Rightarrow> 'k Context \<Rightarrow> (error + int) \<times> 'k Context" where
  "UpdateBackend env vid rid w ctx = updateBackend env vid rid w ctx"

subsection \<open>runtime.go: the notification loop\<close>

text \<open>\<open>int32(x)\<close> of a float: the fraction is discarded (truncation towards zero).
  \<open>float64(weight)\<close> of an \<open>int32\<close> is exact.\<close>

definition int32_of_float :: "real \<Rightarrow> int" where
  "int32_of_float x = (if 0 \<le> x then \<lfloor>x\<rfloor> else \<lceil>x\<rceil>)"

type_synonym stash = "string \<times> string \<rightharpoonup> int"

definition key :: "ID \<Rightarrow> string \<times> string" where
  "key src = (VsID src, RsID src)"

text \<open>The Down branch's weight: zero, or one under \<open>fb-zero-to-one\<close> when the service
  has no health left.\<close>

definition downWeight :: "'k Env \<Rightarrow> 'k Context \<Rightarrow> string \<Rightarrow> int" where
  "downWeight env ctx vid =
     (case GetService env ctx vid of
        Inl err \<Rightarrow> 0
      | Inr serviceInfo \<Rightarrow>
          if Health serviceInfo = 0 then
            (if (case fallbackFlags (FallBack serviceInfo) of None \<Rightarrow> 0 | Some f \<Rightarrow> f) = ZeroToOne
             then 0 + 1 else 0)
          else 0)"

definition processPulseUpdate ::
  "'k Env \<Rightarrow> stash \<Rightarrow> Update \<Rightarrow> 'k Context \<Rightarrow> stash \<times> 'k Context" where
  "processPulseUpdate env stash u ctx =
     (let vid = VsID (Source u); rid = RsID (Source u); src = key (Source u) in
      case map_of (services ctx) vid of
        None \<Rightarrow> (stash(src := None), ctx)
      | Some vs \<Rightarrow>
          (case map_of (backends vs) rid of
             None \<Rightarrow> (stash(src := None), ctx)
           | Some rs \<Rightarrow>
               if MStatus (UMetrics u) = StatusRemoved then (stash(src := None), ctx)
               else
                 (let ctx1 = putBackend vid rid (rs\<lparr>metrics := UMetrics u\<rparr>) ctx in
                  case MStatus (UMetrics u) of
                    StatusUp \<Rightarrow>
                      (case stash src of
                         None \<Rightarrow> (stash, ctx1)
                       | Some stashed \<Rightarrow>
                           (let w = int32_of_float (fl env (of_int stashed * MHealth (UMetrics u))) in
                            case UpdateBackend env vid rid w ctx1 of
                              (Inl err, ctx2) \<Rightarrow> (stash, ctx2)
                            | (Inr prev, ctx2) \<Rightarrow>
                                if stash src = Some w then (stash(src := None), ctx2)
                                else (stash, ctx2)))
                  | StatusDown \<Rightarrow>
                      (let backendWeight = downWeight env ctx1 vid in
                       case UpdateBackend env vid rid backendWeight ctx1 of
                         (Inl err, ctx2) \<Rightarrow> (stash, ctx2)
                       | (Inr prev, ctx2) \<Rightarrow>
                           (case stash src of
                              Some old \<Rightarrow> (stash, ctx2)
                            | None \<Rightarrow> (stash(src \<mapsto> prev), ctx2)))
                  | StatusRemoved \<Rightarrow> (stash, ctx1))))"

subsection \<open>Creating and removing services and backends\<close>

record ServiceConfig =
  ServiceOptions :: ServiceOptions
  ServiceBackends :: "(string \<times> BackendOptions) list"

definition GetPoolForService :: "'k Env \<Rightarrow> 'k Context \<Rightarrow> gnl2go_Service \<Rightarrow> error + gnl2go_Pool" where
  "GetPoolForService env ctx s =
     (case GetPools env (kernel ctx) of
        None \<Rightarrow> Inl ErrIpvsSyscallFailed
      | Some ipvs_pools \<Rightarrow>
          (case find (\<lambda>ipvs_pool. IsEqual env (PService ipvs_pool) s) ipvs_pools of
             Some ipvs_pool \<Rightarrow> Inr ipvs_pool
           | None \<Rightarrow> Inl ErrServiceDoesntExist))"

text \<open>The zero value of \<open>pulse.Metrics\<close>, which a new \<open>Backend\<close> literal carries (its
  status is taken to be the first of the three).\<close>

definition zeroMetrics :: Metrics where
  "zeroMetrics = \<lparr>MStatus = StatusUp, MHealth = 0, MUptime = 0\<rparr>"

text \<open>\<open>Service.CreateBackend\<close>, on the service \<open>ctx.services[vsID]\<close>: the new
  \<open>Backend\<close> holds the caller's options as they are; only \<open>host\<close> is written, by
  \<open>Validate\<close>.\<close>

definition Service_CreateBackend ::
  "'k Env \<Rightarrow> string \<Rightarrow> string \<Rightarrow> BackendOptions \<Rightarrow> 'k Context \<Rightarrow> (error + unit) \<times> 'k Context" where
  "Service_CreateBackend env vid rid opts ctx =
     (case ValidateBackend env opts of
        Inl err \<Rightarrow> (Inl err, ctx)
      | Inr opts1 \<Rightarrow>
          if \<not> pulseNew env (IPString env (b_host opts1)) (bPort opts1) then (Inl ErrPulse, ctx)
          else (Inr (), putBackend vid rid \<lparr>boptions = opts1, metrics = zeroMetrics\<rparr> ctx))"

definition createBackend ::
  "'k Env \<Rightarrow> string \<Rightarrow> string \<Rightarrow> BackendOptions \<Rightarrow> 'k Context \<Rightarrow> (error + unit) \<times> 'k Context" where
  "createBackend env vid rid opts ctx =
     (case map_of (services ctx) vid of
        None \<Rightarrow> (Inl ErrObjectNotFound, ctx)
      | Some vs \<Rightarrow>
          if BackendExist vs rid then (Inl ErrObjectExists, ctx)
          else (case ValidateBackend env opts of
             Inl err \<Rightarrow> (Inl err, ctx)
           | Inr opts1 \<Rightarrow>
               if AddrFamily env (b_host opts1) \<noteq> AddrFamily env (host (options vs))
               then (Inl ErrIncompatibleAFs, ctx)
               else
                 (let newDest = \<lparr>DIP = IPString env (b_host opts1),
                                 DWeight = MaxWeight (options vs),
                                 DPort = bPort opts1\<rparr>
                  in case GetPoolForService env ctx (svc vs) of
                       Inl err \<Rightarrow> (Inl ErrIpvsSyscallFailed, ctx)
                     | Inr pool \<Rightarrow>
                         (let skipCreation =
                                (\<exists>dest \<in> set (Dests pool).
                                   DIP dest = DIP newDest \<and> DPort dest = DPort newDest)
                          in case (if skipCreation = False then
                                     callIpvs env
                                       (AddDestPort (IPString env (host (options vs)))
                                          (Port (options vs)) (DIP newDest) (DPort newDest)
                                          (protocol (options vs)) (DWeight newDest)
                                          (methodID (options vs))) ctx
                                   else (True, ctx)) of
                               (ok, ctx1) \<Rightarrow>
                                 if \<not> ok then (Inl ErrIpvsSyscallFailed, ctx1)
                                 else Service_CreateBackend env vid rid opts1 ctx1))))"


text \<open>\<open>for rsID, opts := range m \{ if err := ctx.createBackend(...); err != nil \{ return err \} \}\<close>\<close>

fun createBackends ::
  "'k Env \<Rightarrow> string \<Rightarrow> (string \<times> BackendOptions) list \<Rightarrow> 'k Context \<Rightarrow> (error + unit) \<times> 'k Context" where
  "createBackends env vid [] ctx = (Inr (), ctx)"
| "createBackends env vid ((rid, backendOpts) # rest) ctx =
     (case createBackend env vid rid backendOpts ctx of
        (Inl err, ctx1) \<Rightarrow> (Inl err, ctx1)
      | (Inr u, ctx1) \<Rightarrow> createBackends env vid rest ctx1)"

text \<open>The flag loop of \<open>createService\<close>: the mask, and \<open>svc.Flags\<close>, which is set
  whenever the mask so far is not zero.\<close>

definition flagStep :: "int \<times> int option \<Rightarrow> string \<Rightarrow> int \<times> int option" where
  "flagStep st flag =
     (let flags = fst st OR (case schedulerFlags flag of None \<Rightarrow> 0 | Some f \<Rightarrow> f)
      in (flags, if flags \<noteq> 0 then Some flags else snd st))"

text \<open>The VIP alias step of \<open>createService\<close>: with an interface configured, a
  successful \<open>netlink.AddrAdd\<close> sets \<open>delIfAddr\<close>.\<close>

definition addVip :: "'k Env \<Rightarrow> 'k Context \<Rightarrow> ServiceOptions \<Rightarrow> ServiceOptions" where
  "addVip env ctx validated =
     (case vipInterface ctx of
        None \<Rightarrow> validated
      | Some ifName \<Rightarrow>
          if AddrAdd env (IPString env (host validated))
          then validated\<lparr>delIfAddr := True\<rparr> else validated)"

definition schedFlags :: "ServiceOptions \<Rightarrow> int \<times> int option" where
  "schedFlags serviceOptions = foldl flagStep (0, None) (Split (ShFlags serviceOptions) CHR ''|'')"

text \<open>The kernel descriptor \<open>svc\<close> that \<open>createService\<close> derives from the options.\<close>

definition descriptor :: "'k Env \<Rightarrow> ServiceOptions \<Rightarrow> gnl2go_Service" where
  "descriptor env serviceOptions =
     \<lparr>Proto = protocol serviceOptions,
      VIP = IPString env (host serviceOptions),
      SPort = Port serviceOptions,
      Sched = LbMethod serviceOptions,
      Flags = snd (schedFlags serviceOptions)\<rparr>"

text \<open>The kernel call of \<open>createService\<close> when no matching pool exists.\<close>

definition addServiceCall :: "'k Env \<Rightarrow> ServiceOptions \<Rightarrow> ipvs_call" where
  "addServiceCall env serviceOptions =
     (let s = descriptor env serviceOptions; flags = fst (schedFlags serviceOptions)
      in if flags \<noteq> 0 then AddServiceWithFlags (VIP s) (SPort s) (Proto s) (Sched s) flags
         else AddService (VIP s) (SPort s) (Proto s) (Sched s))"

definition createService ::
  "'k Env \<Rightarrow> string \<Rightarrow> ServiceConfig \<Rightarrow> 'k Context \<Rightarrow> (error + unit) \<times> 'k Context" where
  "createService env vid serviceConfig ctx =
     (case Validate env (endpoint ctx) (ServiceOptions serviceConfig) of
        Inl err \<Rightarrow> (Inl err, ctx)
      | Inr validated \<Rightarrow>
          if map_of (services ctx) vid \<noteq> None then (Inl ErrObjectExists, ctx)
          else
            (let serviceOptions = addVip env ctx validated;
                 s = descriptor env serviceOptions
             in case (case GetPoolForService env ctx s of
                        Inr pool \<Rightarrow> (True, ctx)
                      | Inl err \<Rightarrow> callIpvs env (addServiceCall env serviceOptions) ctx) of
                  (ok, ctx1) \<Rightarrow>
                    if \<not> ok then (Inl ErrIpvsSyscallFailed, ctx1)
                    else createBackends env vid (ServiceBackends serviceConfig)
                           (putService vid
                              \<lparr>vsID = vid, options = serviceOptions, svc = s, backends = []\<rparr> ctx1)))"

definition CreateService ::
  "'k Env \<Rightarrow> string \<Rightarrow> ServiceConfig \<Rightarrow> 'k Context \<Rightarrow> (error + unit) \<times> 'k Context" where
  "CreateService env vid serviceConfig ctx = createService env vid serviceConfig ctx"

text \<open>\<open>removeService\<close>. \<open>vs.Cleanup()\<close> empties the backend map of the service taken
  out of the Context; the outcome of \<open>netlink.AddrDel\<close> is only logged.\<close>

definition removeService ::
  "'k Env \<Rightarrow> string \<Rightarrow> 'k Context \<Rightarrow> (error + ServiceOptions) \<times> 'k Context" where
  "removeService env vid ctx =
     (case map_of (services ctx) vid of
        None \<Rightarrow> (Inl ErrObjectNotFound, ctx)
      | Some vs \<Rightarrow>
          (case callIpvs env
              (DelService (IPString env (host (options vs))) (Port (options vs))
                 (protocol (options vs))) ctx of
             (ok, ctx1) \<Rightarrow>
               if \<not> ok then (Inl ErrIpvsSyscallFailed, ctx1)
               else (Inr (options vs), ctx1\<lparr>services := AList.delete vid (services ctx1)\<rparr>)))"

definition removeBackend ::
  "'k Env \<Rightarrow> string \<Rightarrow> string \<Rightarrow> 'k Context \<Rightarrow> (error + BackendOptions) \<times> 'k Context" where
  "removeBackend env vid rid ctx =
     (case map_of (services ctx) vid of
        None \<Rightarrow> (Inl ErrObjectNotFound, ctx)
      | Some vs \<Rightarrow>
          (case map_of (backends vs) rid of
             None \<Rightarrow> (Inl ErrObjectNotFound, ctx)
           | Some rs \<Rightarrow>
               (case callIpvs env
                   (DelDestPort (IPString env (host (options vs))) (Port (options vs))
                      (IPString env (b_host (boptions rs))) (bPort (boptions rs))
                      (protocol (options vs))) ctx of
                  (ok, ctx1) \<Rightarrow>
                    if \<not> ok then (Inl ErrIpvsSyscallFailed, ctx1)
                    else (Inr (boptions rs),
                          putService vid (vs\<lparr>backends := AList.delete rid (backends vs)\<rparr>) ctx1))))"

record BackendInfo =
  BOptions :: BackendOptions
  BMetrics :: Metrics

definition GetBackend :: "'k Context \<Rightarrow> string \<Rightarrow> string \<Rightarrow> error + BackendInfo" where
  "GetBackend ctx vid rid =
     (case map_of (services ctx) vid of
        None \<Rightarrow> Inl ErrObjectNotFound
      | Some vs \<Rightarrow>
          (case map_of (backends vs) rid of
             None \<Rightarrow> Inl ErrObjectNotFound
           | Some rs \<Rightarrow> Inr \<lparr>BOptions = boptions rs, BMetrics = metrics rs\<rparr>))"

subsection \<open>Store reconciliation\<close>

record StoreSyncStatus =
  RemovedServices :: "string list"
  RemovedBackends :: "string list"
  UpdatedServices :: "string list"
  UpdatedBackends :: "string list"
  NewServices :: "string list"
  NewBackends :: "string list"
  Status :: string

text \<open>A nil slice is the empty list: \<open>append\<close> never leaves a slice nil.\<close>

definition CheckStatus :: "StoreSyncStatus \<Rightarrow> string" where
  "CheckStatus sync =
     (if NewServices sync \<noteq> [] \<or> NewBackends sync \<noteq> [] \<or> UpdatedBackends sync \<noteq> []
         \<or> UpdatedServices sync \<noteq> [] \<or> RemovedBackends sync \<noteq> [] \<or> RemovedServices sync \<noteq> []
      then ''need sync'' else ''ok'')"

definition emptySyncStatus :: StoreSyncStatus where
  "emptySyncStatus =
     \<lparr>RemovedServices = [], RemovedBackends = [], UpdatedServices = [], UpdatedBackends = [],
      NewServices = [], NewBackends = [], Status = []\<rparr>"

definition backendName :: "string \<Rightarrow> string \<Rightarrow> string" where
  "backendName vid rid = ''['' @ vid @ ''/'' @ rid @ '']''"

text \<open>The loop of \<open>CompareWith\<close> over \<open>service.backends\<close>; the state is the status and
  \<open>storeServiceOptions.ServiceBackends\<close>, from which matched keys are deleted.\<close>

fun compareBackends ::
  "string \<Rightarrow> (string \<times> Backend) list \<Rightarrow> StoreSyncStatus \<times> (string \<times> BackendOptions) list
     \<Rightarrow> StoreSyncStatus \<times> (string \<times> BackendOptions) list" where
  "compareBackends vid [] st = st"
| "compareBackends vid ((rid, backend) # rest) st =
     compareBackends vid rest
       (case map_of (snd st) rid of
          None \<Rightarrow>
            ((fst st)\<lparr>RemovedBackends := RemovedBackends (fst st) @ [backendName vid rid]\<rparr>, snd st)
        | Some storeBackendOptions \<Rightarrow>
            (if \<not> CompareStoreOptionsBackend (boptions backend) storeBackendOptions
             then (fst st)\<lparr>UpdatedBackends := UpdatedBackends (fst st) @ [backendName vid rid]\<rparr>
             else fst st,
             AList.delete rid (snd st)))"

definition newBackends :: "(string \<times> BackendOptions) list \<Rightarrow> StoreSyncStatus \<Rightarrow> StoreSyncStatus" where
  "newBackends sb sync =
     foldl (\<lambda>sy (rid, storeBackend).
              sy\<lparr>NewBackends := NewBackends sy @ [backendName (b_vsID storeBackend) rid]\<rparr>) sync sb"

text \<open>The loop of \<open>CompareWith\<close> over \<open>ctx.services\<close>. The state is the status, the
  argument map \<open>storeServices\<close>, and the \<open>ServiceConfig\<close> objects that the loop has deleted
  from the map, as the loop left them.\<close>

fun compareServices ::
  "(string \<times> Service) list
     \<Rightarrow> StoreSyncStatus \<times> (string \<times> ServiceConfig) list \<times> (string \<times> ServiceConfig) list
     \<Rightarrow> StoreSyncStatus \<times> (string \<times> ServiceConfig) list \<times> (string \<times> ServiceConfig) list" where
  "compareServices [] st = st"
| "compareServices ((vid, service) # rest) (sync, storeServices, matched) =
     compareServices rest
       (case map_of storeServices vid of
          None \<Rightarrow> (sync\<lparr>RemovedServices := RemovedServices sync @ [vid]\<rparr>, storeServices, matched)
        | Some storeServiceOptions \<Rightarrow>
            (let sync1 =
                   (if \<not> CompareStoreOptions (options service) (ServiceOptions storeServiceOptions)
                    then sync\<lparr>UpdatedServices := UpdatedServices sync @ [vid]\<rparr> else sync);
                 st2 = compareBackends vid (backends service)
                         (sync1, ServiceBackends storeServiceOptions)
             in (newBackends (snd st2) (fst st2),
                 AList.delete vid storeServices,
                 matched @ [(vid, storeServiceOptions\<lparr>ServiceBackends := snd st2\<rparr>)])))"

text \<open>\<open>CompareWith\<close> returns the status; the model returns with it what the call leaves
  behind: the argument map, and the configs it deleted from the map.\<close>

definition CompareWith ::
  "'k Context \<Rightarrow> (string \<times> ServiceConfig) list
     \<Rightarrow> StoreSyncStatus \<times> (string \<times> ServiceConfig) list \<times> (string \<times> ServiceConfig) list" where
  "CompareWith ctx storeServices =
     (case compareServices (services ctx) (emptySyncStatus, storeServices, []) of
        (sync, storeServices', matched) \<Rightarrow>
          (let sync1 = foldl (\<lambda>sy (sid, cfg). sy\<lparr>NewServices := NewServices sy @ [sid]\<rparr>)
                         sync storeServices'
           in (sync1\<lparr>Status := CheckStatus sync1\<rparr>, storeServices', matched)))"

text \<open>\<open>Synchronize\<close>. A \<open>range\<close> over a map that its body changes is modelled on the keys
  the map had when the loop began: a key the body has deleted in the meantime is not
  produced, and an entry the body creates again under a key already visited is not
  produced a second time (Go leaves that open).\<close>

fun syncBackends ::
  "'k Env \<Rightarrow> string \<Rightarrow> string list \<Rightarrow> (string \<times> BackendOptions) list \<Rightarrow> 'k Context
     \<Rightarrow> (error + unit) \<times> (string \<times> BackendOptions) list \<times> 'k Context" where
  "syncBackends env vid [] sb ctx = (Inr (), sb, ctx)"
| "syncBackends env vid (rid # rest) sb ctx =
     (case GetBackend ctx vid rid of
        Inl gone \<Rightarrow> syncBackends env vid rest sb ctx
      | Inr backend \<Rightarrow>
          (case map_of sb rid of
             None \<Rightarrow>
               (case removeBackend env vid rid ctx of
                  (Inl err, ctx1) \<Rightarrow> (Inl err, sb, ctx1)
                | (Inr removed, ctx1) \<Rightarrow> syncBackends env vid rest sb ctx1)
           | Some storeBackendOptions \<Rightarrow>
               if \<not> CompareStoreOptionsBackend (BOptions backend) storeBackendOptions then
                 (case removeBackend env vid rid ctx of
                    (Inl err, ctx1) \<Rightarrow> (Inl err, sb, ctx1)
                  | (Inr removed, ctx1) \<Rightarrow>
                      (case createBackend env vid rid storeBackendOptions ctx1 of
                         (Inl err, ctx2) \<Rightarrow> (Inl err, sb, ctx2)
                       | (Inr u, ctx2) \<Rightarrow> syncBackends env vid rest (AList.delete rid sb) ctx2))
               else syncBackends env vid rest (AList.delete rid sb) ctx))"

text \<open>One round of the loop over \<open>ctx.services\<close>, for a service found in the desired
  state. After \<open>removeService\<close> the loop variable \<open>service\<close> is the removed object, whose
  backend map \<open>Cleanup\<close> has emptied, so the backend loop has nothing to visit.\<close>

definition syncService ::
  "'k Env \<Rightarrow> string \<Rightarrow> Service \<Rightarrow> ServiceConfig \<Rightarrow> 'k Context \<Rightarrow> (error + unit) \<times> 'k Context" where
  "syncService env vid service storeService ctx =
     (case (if \<not> CompareStoreOptions (options service) (ServiceOptions storeService) then
              (case removeService env vid ctx of
                 (Inl err, ctx1) \<Rightarrow> (Inl err, [], ctx1)
               | (Inr removed, ctx1) \<Rightarrow>
                   (case createService env vid storeService ctx1 of
                      (Inl err, ctx2) \<Rightarrow> (Inl err, [], ctx2)
                    | (Inr u, ctx2) \<Rightarrow> (Inr (), [], ctx2)))
            else (Inr (), map fst (backends service), ctx)) of
        (Inl err, rids, ctx1) \<Rightarrow> (Inl err, ctx1)
      | (Inr u, rids, ctx1) \<Rightarrow>
          (case syncBackends env vid rids (ServiceBackends storeService) ctx1 of
             (Inl err, sb, ctx2) \<Rightarrow> (Inl err, ctx2)
           | (Inr u, sb, ctx2) \<Rightarrow> createBackends env vid sb ctx2))"

fun syncServices ::
  "'k Env \<Rightarrow> string list \<Rightarrow> (string \<times> ServiceConfig) list \<Rightarrow> 'k Context
     \<Rightarrow> (error + unit) \<times> (string \<times> ServiceConfig) list \<times> 'k Context" where
  "syncServices env [] storeServicesConfig ctx = (Inr (), storeServicesConfig, ctx)"
| "syncServices env (vid # rest) storeServicesConfig ctx =
     (case map_of (services ctx) vid of
        None \<Rightarrow> syncServices env rest storeServicesConfig ctx
      | Some service \<Rightarrow>
          (case map_of storeServicesConfig vid of
             None \<Rightarrow>
               (case removeService env vid ctx of
                  (Inl err, ctx1) \<Rightarrow> (Inl err, storeServicesConfig, ctx1)
                | (Inr removed, ctx1) \<Rightarrow> syncServices env rest storeServicesConfig ctx1)
           | Some storeService \<Rightarrow>
               (case syncService env vid service storeService ctx of
                  (Inl err, ctx1) \<Rightarrow> (Inl err, storeServicesConfig, ctx1)
                | (Inr u, ctx1) \<Rightarrow>
                    syncServices env rest (AList.delete vid storeServicesConfig) ctx1)))"

fun createServices ::
  "'k Env \<Rightarrow> (string \<times> ServiceConfig) list \<Rightarrow> 'k Context \<Rightarrow> (error + unit) \<times> 'k Context" where
  "createServices env [] ctx = (Inr (), ctx)"
| "createServices env ((sid, storeServiceOptions) # rest) ctx =
     (case createService env sid storeServiceOptions ctx of
        (Inl err, ctx1) \<Rightarrow> (Inl err, ctx1)
      | (Inr u, ctx1) \<Rightarrow> createServices env rest ctx1)"

definition Synchronize ::
  "'k Env \<Rightarrow> (string \<times> ServiceConfig) list \<Rightarrow> 'k Context \<Rightarrow> (error + unit) \<times> 'k Context" where
  "Synchronize env storeServicesConfig ctx =
     (case syncServices env (map fst (services ctx)) storeServicesConfig ctx of
        (Inl err, remaining, ctx1) \<Rightarrow> (Inl err, ctx1)
      | (Inr u, remaining, ctx1) \<Rightarrow> createServices env remaining ctx1)"

subsection \<open>A driver double and the states of the test suite\<close>

text \<open>A kernel table that accepts every call, for running the model on examples: the
  state is the list of pools, and \<open>GetPools\<close> returns it. The rounding of \<open>testEnv\<close> is
  the identity: the examples compute with small binary fractions, which \<open>float64\<close>
  represents exactly.\<close>

definition poolMatches :: "string \<Rightarrow> 16 word \<Rightarrow> 16 word \<Rightarrow> gnl2go_Pool \<Rightarrow> bool" where
  "poolMatches vip port proto p =
     (VIP (PService p) = vip \<and> SPort (PService p) = port \<and> Proto (PService p) = proto)"

fun simIpvs :: "ipvs_call \<Rightarrow> gnl2go_Pool list \<Rightarrow> bool \<times> gnl2go_Pool list" where
  "simIpvs (AddService vip port proto sched) k =
     (True, k @ [\<lparr>PService = \<lparr>Proto = proto, VIP = vip, SPort = port, Sched = sched, Flags = None\<rparr>,
                  Dests = []\<rparr>])"
| "simIpvs (AddServiceWithFlags vip port proto sched flags) k =
     (True, k @ [\<lparr>PService = \<lparr>Proto = proto, VIP = vip, SPort = port, Sched = sched,
                               Flags = Some flags\<rparr>,
                  Dests = []\<rparr>])"
| "simIpvs (DelService vip port proto) k =
     (True, filter (\<lambda>p. \<not> poolMatches vip port proto p) k)"
| "simIpvs (AddDestPort vip vport rip rport proto w fwd) k =
     (True, map (\<lambda>p. if poolMatches vip vport proto p
                      then p\<lparr>Dests := Dests p @ [\<lparr>DIP = rip, DWeight = w, DPort = rport\<rparr>]\<rparr>
                      else p) k)"
| "simIpvs (UpdateDestPort vip vport rip rport proto w fwd) k =
     (True, map (\<lambda>p. if poolMatches vip vport proto p
                      then p\<lparr>Dests := map (\<lambda>d. if DIP d = rip \<and> DPort d = rport
                                                then d\<lparr>DWeight := w\<rparr> else d) (Dests p)\<rparr>
                      else p) k)"
| "simIpvs (DelDestPort vip vport rip rport proto) k =
     (True, map (\<lambda>p. if poolMatches vip vport proto p
                      then p\<lparr>Dests := filter (\<lambda>d. \<not> (DIP d = rip \<and> DPort d = rport)) (Dests p)\<rparr>
                      else p) k)"

definition testEnv :: "gnl2go_Pool list Env" where
  "testEnv =
     \<lparr>ipvs = simIpvs,
      GetPools = Some,
      IsEqual = (\<lambda>a b. Proto a = Proto b \<and> VIP a = VIP b \<and> SPort a = SPort b),
      ResolveIPAddr = (\<lambda>h. if h = ''localhost'' then Some [127, 0, 0, 1]
                            else if h = ''10.0.0.7'' then Some [10, 0, 0, 7] else None),
      ToLower = (\<lambda>s. s),
      AddrFamily = (\<lambda>ip. int (length ip)),
      IPString = (\<lambda>ip. if ip = [127, 0, 0, 1] then ''127.0.0.1''
                        else if ip = [10, 0, 0, 7] then ''10.0.0.7'' else ''<nil>''),
      AddrAdd = (\<lambda>vip. True),
      pulseNew = (\<lambda>h p. True),
      fl = (\<lambda>x. x)\<rparr>"

text \<open>The same collaborators over a driver that rejects every call.\<close>

definition failEnv :: "gnl2go_Pool list Env" where
  "failEnv = testEnv\<lparr>ipvs := (\<lambda>c k. (False, k))\<rparr>"

text \<open>The fixtures of \<open>context_test.go\<close>: \<open>virtualService\<close>, \<open>virtualServiceFallBack\<close>,
  and a Context with one service holding one backend of a given weight.\<close>

definition virtualService :: ServiceOptions where
  "virtualService =
     \<lparr>Host = ''localhost'', Port = 80, Protocol = ''tcp'', LbMethod = ''sh'', ShFlags = [],
      Persistent = False, Fallback = [], FwdMethod = [], MaxWeight = 0, host = [],
      delIfAddr = False, protocol = 0, methodID = 0\<rparr>"

definition virtualServiceFallBack :: ServiceOptions where
  "virtualServiceFallBack = virtualService\<lparr>LbMethod := [], Fallback := ''fb-zero-to-one''\<rparr>"

definition testBackend :: "int \<Rightarrow> Backend" where
  "testBackend w =
     \<lparr>boptions = \<lparr>bHost = [], bPort = 0, b_vsID = [], b_host = [], weight = w\<rparr>,
      metrics = zeroMetrics\<rparr>"

definition zeroSvc :: gnl2go_Service where
  "zeroSvc = \<lparr>Proto = 0, VIP = [], SPort = 0, Sched = [], Flags = None\<rparr>"

definition newRoutineContext :: "(string \<times> Service) list \<Rightarrow> gnl2go_Pool list Context" where
  "newRoutineContext svcs =
     \<lparr>services = svcs, endpoint = None, vipInterface = None, kernel = [], calls = []\<rparr>"

definition testContext :: "ServiceOptions \<Rightarrow> int \<Rightarrow> gnl2go_Pool list Context" where
  "testContext opts w =
     newRoutineContext
       [(''vs'', \<lparr>vsID = [], options = opts, svc = zeroSvc,
                 backends = [(''rs'', testBackend w)]\<rparr>)]"

definition pulseUpdate :: "StatusType \<Rightarrow> real \<Rightarrow> Update" where
  "pulseUpdate st h =
     \<lparr>Source = \<lparr>VsID = ''vs'', RsID = ''rs''\<rparr>,
      UMetrics = \<lparr>MStatus = st, MHealth = h, MUptime = 0\<rparr>\<rparr>"

text \<open>A service with \<open>n\<close> backends under \<open>n\<close> different keys, each of health 1.\<close>

definition manyBackends :: "nat \<Rightarrow> (string \<times> Backend) list" where
  "manyBackends n =
     map (\<lambda>i. (replicate i CHR ''r'',
               \<lparr>boptions = \<lparr>bHost = [], bPort = 0, b_vsID = [], b_host = [], weight = 1\<rparr>,
                metrics = \<lparr>MStatus = StatusUp, MHealth = 1, MUptime = 0\<rparr>\<rparr>)) [0..<n]"

definition crowdedContext :: "nat \<Rightarrow> gnl2go_Pool list Context" where
  "crowdedContext n =
     newRoutineContext
       [(''vs'', \<lparr>vsID = [], options = virtualService, svc = zeroSvc,
                 backends = manyBackends n\<rparr>)]"

text \<open>A Context with one service that holds two backends, of health 1/2 and 1.\<close>

definition pairContext :: "gnl2go_Pool list Context" where
  "pairContext =
     newRoutineContext
       [(''vs'', \<lparr>vsID = [], options = virtualServiceFallBack, svc = zeroSvc,
                 backends =
                   [(''a'', (testBackend 100)\<lparr>metrics := \<lparr>MStatus = StatusUp, MHealth = 1 / 2, MUptime = 0\<rparr>\<rparr>),
                    (''b'', (testBackend 100)\<lparr>metrics := \<lparr>MStatus = StatusUp, MHealth = 1, MUptime = 0\<rparr>\<rparr>)]\<rparr>)]"

text \<open>\<open>virtualService\<close> as \<open>Validate\<close> leaves it, its kernel pool, and Contexts that hold
  the service without backends: over a kernel table with the pool, and over one where the
  pool already has the destination 10.0.0.7:8080 with weight 5.\<close>

definition validService :: ServiceOptions where
  "validService =
     virtualService\<lparr>Fallback := ''fb-default'', FwdMethod := ''nat'', MaxWeight := 100,
       host := [127, 0, 0, 1], protocol := IPPROTO_TCP, methodID := IPVS_MASQUERADING\<rparr>"

definition validPool :: "gnl2go_Dest list \<Rightarrow> gnl2go_Pool" where
  "validPool ds = \<lparr>PService = descriptor testEnv validService, Dests = ds\<rparr>"

definition liveContext :: "gnl2go_Dest list \<Rightarrow> gnl2go_Pool list Context" where
  "liveContext ds =
     \<lparr>services = [(''vs'', \<lparr>vsID = ''vs'', options = validService,
                             svc = descriptor testEnv validService, backends = []\<rparr>)],
      endpoint = None, vipInterface = None, kernel = [validPool ds], calls = []\<rparr>"


definition newBackendOptions :: BackendOptions where
  "newBackendOptions = \<lparr>bHost = ''10.0.0.7'', bPort = 8080, b_vsID = [], b_host = [], weight = 0\<rparr>"

text \<open>The driver calls that create a virtual service.\<close>

definition isServiceCreation :: "ipvs_call \<Rightarrow> bool" where
  "isServiceCreation c =
     (case c of AddService vip port proto sched \<Rightarrow> True
      | AddServiceWithFlags vip port proto sched flags \<Rightarrow> True
      | _ \<Rightarrow> False)"

text \<open>A Context without services over a kernel table that already has the pool of
  \<open>virtualService\<close>, and the configurations used in the examples.\<close>

definition orphanContext :: "gnl2go_Pool list Context" where
  "orphanContext =
     \<lparr>services = [], endpoint = None, vipInterface = None, kernel = [validPool []], calls = []\<rparr>"

definition serviceConfig :: "ServiceOptions \<Rightarrow> (string \<times> BackendOptions) list \<Rightarrow> ServiceConfig" where
  "serviceConfig opts bs = \<lparr>ServiceOptions = opts, ServiceBackends = bs\<rparr>"

text \<open>The desired state that is a snapshot of the Context: every service under its key
  with its options, every backend under its key with its options.\<close>

definition snapshotConfig :: "Service \<Rightarrow> ServiceConfig" where
  "snapshotConfig vs =
     \<lparr>ServiceOptions = options vs,
      ServiceBackends = map (\<lambda>(rid, rs). (rid, boptions rs)) (backends vs)\<rparr>"

definition snapshot :: "'k Context \<Rightarrow> (string \<times> ServiceConfig) list" where
  "snapshot ctx = map (\<lambda>(vid, vs). (vid, snapshotConfig vs)) (services ctx)"

text \<open>What is left of a matched config's \<open>ServiceBackends\<close>: the entries whose key the
  running service does not have.\<close>

definition unmatchedBackends :: "Service \<Rightarrow> ServiceConfig \<Rightarrow> ServiceConfig" where
  "unmatchedBackends vs cfg =
     cfg\<lparr>ServiceBackends := filter (\<lambda>(rid, sbo). map_of (backends vs) rid = None) (ServiceBackends cfg)\<rparr>"

text \<open>The states that \<open>Synchronize\<close> goes through in the example of a service whose
  desired port changes from 80 to 81: after the old service is removed, after the service
  is created again without a backend, and after it is created again with its backend.\<close>

definition afterRemove :: "gnl2go_Pool list Context" where
  "afterRemove =
     \<lparr>services = [], endpoint = None, vipInterface = None, kernel = [],
      calls = [DelService ''127.0.0.1'' 80 6]\<rparr>"

definition pool81 :: "gnl2go_Dest list \<Rightarrow> gnl2go_Pool" where
  "pool81 ds =
     \<lparr>PService = \<lparr>Proto = 6, VIP = ''127.0.0.1'', SPort = 81, Sched = ''sh'', Flags = None\<rparr>,
      Dests = ds\<rparr>"

definition service81 :: "(string \<times> Backend) list \<Rightarrow> Service" where
  "service81 bs =
     \<lparr>vsID = ''vs'', options = validService\<lparr>Port := 81\<rparr>,
      svc = \<lparr>Proto = 6, VIP = ''127.0.0.1'', SPort = 81, Sched = ''sh'', Flags = None\<rparr>,
      backends = bs\<rparr>"

definition recreated :: "gnl2go_Pool list Context" where
  "recreated =
     \<lparr>services = [(''vs'', service81 [])], endpoint = None, vipInterface = None,
      kernel = [pool81 []],
      calls = [DelService ''127.0.0.1'' 80 6, AddService ''127.0.0.1'' 81 6 ''sh'']\<rparr>"

definition recreatedWithBackend :: "gnl2go_Pool list Context" where
  "recreatedWithBackend =
     \<lparr>services = [(''vs'', service81
         [(''rs'', \<lparr>boptions = newBackendOptions\<lparr>b_host := [10, 0, 0, 7]\<rparr>,
                    metrics = zeroMetrics\<rparr>)])],
      endpoint = None, vipInterface = None,
      kernel = [pool81 [\<lparr>DIP = ''10.0.0.7'', DWeight = 100, DPort = 8080\<rparr>]],
      calls = [DelService ''127.0.0.1'' 80 6, AddService ''127.0.0.1'' 81 6 ''sh'',
               AddDestPort ''127.0.0.1'' 81 ''10.0.0.7'' 8080 6 100 0]\<rparr>"

section \<open>Properties\<close>

subsection \<open>Reading and writing the Context\<close>

lemma map_of_services_putBackend:
  "map_of (services ctx) vid = Some vs \<Longrightarrow>
   map_of (services (putBackend vid rid rs ctx)) =
     (map_of (services ctx))(vid \<mapsto> vs\<lparr>backends := AList.update rid rs (backends vs)\<rparr>)"
  by (simp add: putBackend_def putService_def update_conv')

lemma putBackend_frame:
  "calls (putBackend vid rid rs ctx) = calls ctx \<and> kernel (putBackend vid rid rs ctx) = kernel ctx
   \<and> endpoint (putBackend vid rid rs ctx) = endpoint ctx
   \<and> vipInterface (putBackend vid rid rs ctx) = vipInterface ctx"
  by (simp add: putBackend_def putService_def split: option.splits)

lemma callIpvs_eq:
  "callIpvs env c ctx = (fst (ipvs env c (kernel ctx)),
      ctx\<lparr>kernel := snd (ipvs env c (kernel ctx)), calls := calls ctx @ [c]\<rparr>)"
  by (simp add: callIpvs_def split: prod.splits)

lemma testEnv_accepts: "fst (ipvs testEnv c k)"
  by (cases c; simp add: testEnv_def)

lemma failEnv_rejects: "\<not> fst (ipvs failEnv c k)"
  by (simp add: testEnv_def failEnv_def)

lemma testEnv_simps:
  "ipvs testEnv = simIpvs"
  "GetPools testEnv = Some"
  "IsEqual testEnv a b = (Proto a = Proto b \<and> VIP a = VIP b \<and> SPort a = SPort b)"
  "ResolveIPAddr testEnv h = (if h = ''localhost'' then Some [127, 0, 0, 1]
                            else if h = ''10.0.0.7'' then Some [10, 0, 0, 7] else None)"
  "ToLower testEnv s = s"
  "AddrFamily testEnv ip = int (length ip)"
  "IPString testEnv ip = (if ip = [127, 0, 0, 1] then ''127.0.0.1''
                        else if ip = [10, 0, 0, 7] then ''10.0.0.7'' else ''<nil>'')"
  "AddrAdd testEnv vip = True"
  "pulseNew testEnv hst p = True"
  "fl testEnv x = x"
  by (simp_all add: testEnv_def)

lemma failEnv_simps:
  "GetPools failEnv = GetPools testEnv"
  "IsEqual failEnv = IsEqual testEnv"
  "ResolveIPAddr failEnv = ResolveIPAddr testEnv"
  "ToLower failEnv = ToLower testEnv"
  "AddrFamily failEnv = AddrFamily testEnv"
  "IPString failEnv = IPString testEnv"
  "AddrAdd failEnv = AddrAdd testEnv"
  "pulseNew failEnv = pulseNew testEnv"
  "fl failEnv = fl testEnv"
  by (simp_all add: failEnv_def)

lemma testContext_service:
  "map_of (services (testContext opts w)) ''vs'' =
     Some \<lparr>vsID = [], options = opts, svc = zeroSvc, backends = [(''rs'', testBackend w)]\<rparr>"
  by (simp add: testContext_def newRoutineContext_def)

subsection \<open>UpdateBackend\<close>

text \<open>
  Claim C4. \<open>UpdateBackend(vsID, rsID, weight)\<close> returns \<open>ErrObjectNotFound\<close>, and changes
  nothing, when the service or the backend is unknown. For a known backend it makes
  exactly one driver call, \<open>UpdateDestPort\<close> with the new weight. When that call fails, it
  returns \<open>ErrIpvsSyscallFailed\<close> and the services map, so the backend's weight, is as
  before. When it succeeds, the result is the weight the backend had before the call, and
  the backend now holds the new weight, its other options and its metrics unchanged.
\<close>

theorem C4_UpdateBackend:
  fixes env :: "'k Env"
  shows
  "(map_of (services ctx) vid = None \<longrightarrow>
      UpdateBackend env vid rid w ctx = (Inl ErrObjectNotFound, ctx)) \<and>
   (\<forall>vs. map_of (services ctx) vid = Some vs \<and> map_of (backends vs) rid = None \<longrightarrow>
      UpdateBackend env vid rid w ctx = (Inl ErrObjectNotFound, ctx)) \<and>
   (\<forall>vs rs. map_of (services ctx) vid = Some vs \<and> map_of (backends vs) rid = Some rs \<longrightarrow>
      (let c = UpdateDestPort (IPString env (host (options vs))) (Port (options vs))
                 (IPString env (b_host (boptions rs))) (bPort (boptions rs))
                 (protocol (options vs)) w (methodID (options vs));
           r = UpdateBackend env vid rid w ctx
       in calls (snd r) = calls ctx @ [c] \<and>
          kernel (snd r) = snd (ipvs env c (kernel ctx)) \<and>
          (\<not> fst (ipvs env c (kernel ctx)) \<longrightarrow>
             fst r = Inl ErrIpvsSyscallFailed \<and> services (snd r) = services ctx \<and>
             GetBackend (snd r) vid rid = Inr \<lparr>BOptions = boptions rs, BMetrics = metrics rs\<rparr>) \<and>
          (fst (ipvs env c (kernel ctx)) \<longrightarrow>
             fst r = Inr (weight (boptions rs)) \<and>
             GetBackend (snd r) vid rid =
               Inr \<lparr>BOptions = (boptions rs)\<lparr>weight := w\<rparr>, BMetrics = metrics rs\<rparr>)))"
  by (auto simp: UpdateBackend_def updateBackend_def callIpvs_eq UpdateWeight_def Let_def
      GetBackend_def putBackend_frame map_of_services_putBackend update_conv')

theorem C4_UpdateBackend_witness:
  "fst (UpdateBackend testEnv ''vs'' ''rs'' 7 (testContext virtualService 100)) = Inr 100 \<and>
   GetBackend (snd (UpdateBackend testEnv ''vs'' ''rs'' 7 (testContext virtualService 100))) ''vs'' ''rs''
     = Inr \<lparr>BOptions = (boptions (testBackend 100))\<lparr>weight := 7\<rparr>, BMetrics = zeroMetrics\<rparr> \<and>
   fst (UpdateBackend failEnv ''vs'' ''rs'' 7 (testContext virtualService 100))
     = Inl ErrIpvsSyscallFailed \<and>
   GetBackend (snd (UpdateBackend failEnv ''vs'' ''rs'' 7 (testContext virtualService 100))) ''vs'' ''rs''
     = Inr \<lparr>BOptions = boptions (testBackend 100), BMetrics = zeroMetrics\<rparr> \<and>
   UpdateBackend testEnv ''no'' ''rs'' 7 (testContext virtualService 100)
     = (Inl ErrObjectNotFound, testContext virtualService 100) \<and>
   UpdateBackend testEnv ''vs'' ''no'' 7 (testContext virtualService 100)
     = (Inl ErrObjectNotFound, testContext virtualService 100)"
proof -
  let ?ctx = "testContext virtualService 100"
  let ?vs = "\<lparr>vsID = [], options = virtualService, svc = zeroSvc,
              backends = [(''rs'', testBackend 100)]\<rparr>"
  have s: "map_of (services ?ctx) ''vs'' = Some ?vs"
    by (rule testContext_service)
  have n: "map_of (services ?ctx) ''no'' = None"
    by (simp add: testContext_def newRoutineContext_def)
  have b: "map_of (backends ?vs) ''rs'' = Some (testBackend 100)"
    by simp
  have nb: "map_of (backends ?vs) ''no'' = None"
    by simp
  have m: "metrics (testBackend 100) = zeroMetrics" "weight (boptions (testBackend 100)) = 100"
    by (simp_all add: testBackend_def)
  show ?thesis
    using
      C4_UpdateBackend [where env = testEnv and ctx = ?ctx and vid = "''vs''" and rid = "''rs''" and w = 7]
      C4_UpdateBackend [where env = failEnv and ctx = ?ctx and vid = "''vs''" and rid = "''rs''" and w = 7]
      C4_UpdateBackend [where env = testEnv and ctx = ?ctx and vid = "''no''" and rid = "''rs''" and w = 7]
      C4_UpdateBackend [where env = testEnv and ctx = ?ctx and vid = "''vs''" and rid = "''no''" and w = 7]
      s n b nb
    by (simp add: Let_def testEnv_accepts failEnv_rejects m)
qed

subsection \<open>The notification loop\<close>


lemma int32_of_float_floor: "0 \<le> x \<Longrightarrow> int32_of_float x = \<lfloor>x\<rfloor>"
  by (simp add: int32_of_float_def)

lemma updateBackend_known:
  assumes "map_of (services ctx) vid = Some vs" "map_of (backends vs) rid = Some rs"
  shows "UpdateBackend env vid rid w ctx =
     (let c = UpdateDestPort (IPString env (host (options vs))) (Port (options vs))
                 (IPString env (b_host (boptions rs))) (bPort (boptions rs))
                 (protocol (options vs)) w (methodID (options vs));
          ctx1 = ctx\<lparr>kernel := snd (ipvs env c (kernel ctx)), calls := calls ctx @ [c]\<rparr>
      in if fst (ipvs env c (kernel ctx))
         then (Inr (weight (boptions rs)),
               putBackend vid rid (rs\<lparr>boptions := (boptions rs)\<lparr>weight := w\<rparr>\<rparr>) ctx1)
         else (Inl ErrIpvsSyscallFailed, ctx1))"
  using assms
  by (simp add: UpdateBackend_def updateBackend_def callIpvs_eq UpdateWeight_def Let_def)


text \<open>
  Claim C6. A pulse update whose service is unknown, whose backend is unknown within its
  service, or whose status is Removed only deletes the stash entry of its source: the
  Context comes back as it was, so no driver call was made and no backend's metrics were
  overwritten.
\<close>

theorem C6_drop:
  fixes env :: "'k Env"
  assumes "map_of (services ctx) (VsID (Source u)) = None
     \<or> (\<exists>vs. map_of (services ctx) (VsID (Source u)) = Some vs
              \<and> map_of (backends vs) (RsID (Source u)) = None)
     \<or> MStatus (UMetrics u) = StatusRemoved"
  shows "processPulseUpdate env stash u ctx = (stash(key (Source u) := None), ctx)"
  using assms
  by (auto simp: processPulseUpdate_def Let_def split: option.splits)

theorem C6_drop_witness:
  "processPulseUpdate testEnv [(''vs'', ''rs'') \<mapsto> 0] (pulseUpdate StatusUp 0)
      (newRoutineContext [(''vs'', \<lparr>vsID = [], options = virtualService, svc = zeroSvc, backends = []\<rparr>)])
     = (Map.empty,
        newRoutineContext [(''vs'', \<lparr>vsID = [], options = virtualService, svc = zeroSvc, backends = []\<rparr>)]) \<and>
   processPulseUpdate testEnv [(''vs'', ''rs'') \<mapsto> 0] (pulseUpdate StatusRemoved 0)
      (testContext virtualService 0)
     = (Map.empty, testContext virtualService 0) \<and>
   processPulseUpdate testEnv [(''vs'', ''rs'') \<mapsto> 0] (pulseUpdate StatusDown 0)
      (newRoutineContext [])
     = (Map.empty, newRoutineContext [])"
proof -
  let ?c1 = "newRoutineContext [(''vs'', \<lparr>vsID = [], options = virtualService, svc = zeroSvc, backends = []\<rparr>)]"
  have k: "key (Source (pulseUpdate st h)) = (''vs'', ''rs'')" for st h
    by (simp add: key_def pulseUpdate_def)
  have h1: "map_of (services ?c1) (VsID (Source (pulseUpdate StatusUp 0))) = None
     \<or> (\<exists>vs. map_of (services ?c1) (VsID (Source (pulseUpdate StatusUp 0))) = Some vs
              \<and> map_of (backends vs) (RsID (Source (pulseUpdate StatusUp 0))) = None)
     \<or> MStatus (UMetrics (pulseUpdate StatusUp 0)) = StatusRemoved"
    by (simp add: newRoutineContext_def pulseUpdate_def)
  have h2: "map_of (services (testContext virtualService 0)) (VsID (Source (pulseUpdate StatusRemoved 0))) = None
     \<or> (\<exists>vs. map_of (services (testContext virtualService 0)) (VsID (Source (pulseUpdate StatusRemoved 0))) = Some vs
              \<and> map_of (backends vs) (RsID (Source (pulseUpdate StatusRemoved 0))) = None)
     \<or> MStatus (UMetrics (pulseUpdate StatusRemoved 0)) = StatusRemoved"
    by (simp add: pulseUpdate_def)
  have h3: "map_of (services (newRoutineContext [])) (VsID (Source (pulseUpdate StatusDown 0))) = None
     \<or> (\<exists>vs. map_of (services (newRoutineContext [] :: gnl2go_Pool list Context)) (VsID (Source (pulseUpdate StatusDown 0))) = Some vs
              \<and> map_of (backends vs) (RsID (Source (pulseUpdate StatusDown 0))) = None)
     \<or> MStatus (UMetrics (pulseUpdate StatusDown 0)) = StatusRemoved"
    by (simp add: newRoutineContext_def)
  show ?thesis
    using C6_drop [OF h1, of testEnv "[(''vs'', ''rs'') \<mapsto> 0]"]
      C6_drop [OF h2, of testEnv "[(''vs'', ''rs'') \<mapsto> 0]"]
      C6_drop [OF h3, of testEnv "[(''vs'', ''rs'') \<mapsto> 0]"]
    by (simp add: k)
qed

text \<open>
  Claim C1. An Up update for a known backend. Without a stash entry the stash stays as it
  is and no driver call is made. With a stashed weight, the loop calls \<open>UpdateBackend\<close>
  with \<open>int32(float64(stashed) * health)\<close> on the Context that holds the new metrics,
  which makes the one driver call \<open>UpdateDestPort\<close> with that weight; the stash entry is
  deleted when the call succeeds and the new weight equals the stashed one, and the stash
  is unchanged otherwise. The product is the \<open>float64\<close> product; when it is not negative,
  as it is for the weights and healths of the data model (weights in \<open>[0, MaxWeight]\<close>,
  health in \<open>[0, 1]\<close>), the new weight is its floor. The witness runs the partial
  recovery (stash 12, health 0.5: weight 6, stash kept) and the full recovery of the test
  suite, and an Up update without a stash entry.
\<close>

theorem C1_Up:
  fixes env :: "'k Env"
  assumes svc: "map_of (services ctx) (VsID (Source u)) = Some vs"
      and rs: "map_of (backends vs) (RsID (Source u)) = Some rs"
      and up: "MStatus (UMetrics u) = StatusUp"
  shows
  "(stash (key (Source u)) = None \<longrightarrow>
      fst (processPulseUpdate env stash u ctx) = stash \<and>
      calls (snd (processPulseUpdate env stash u ctx)) = calls ctx \<and>
      kernel (snd (processPulseUpdate env stash u ctx)) = kernel ctx) \<and>
   (\<forall>stashed. stash (key (Source u)) = Some stashed \<longrightarrow>
      (let product = fl env (real_of_int stashed * MHealth (UMetrics u));
           new = int32_of_float product;
           ctx1 = putBackend (VsID (Source u)) (RsID (Source u)) (rs\<lparr>metrics := UMetrics u\<rparr>) ctx;
           upd = UpdateBackend env (VsID (Source u)) (RsID (Source u)) new ctx1;
           c = UpdateDestPort (IPString env (host (options vs))) (Port (options vs))
                 (IPString env (b_host (boptions rs))) (bPort (boptions rs))
                 (protocol (options vs)) new (methodID (options vs));
           r = processPulseUpdate env stash u ctx
       in snd upd = snd r \<and>
          calls (snd r) = calls ctx @ [c] \<and>
          fst upd = (if fst (ipvs env c (kernel ctx)) then Inr (weight (boptions rs))
                     else Inl ErrIpvsSyscallFailed) \<and>
          fst r = (if fst (ipvs env c (kernel ctx)) \<and> new = stashed
                   then stash(key (Source u) := None) else stash) \<and>
          (0 \<le> product \<longrightarrow> new = \<lfloor>product\<rfloor>)))"
proof -
  let ?vid = "VsID (Source u)" and ?rid = "RsID (Source u)"
  let ?ctx1 = "putBackend ?vid ?rid (rs\<lparr>metrics := UMetrics u\<rparr>) ctx"
  let ?vs1 = "vs\<lparr>backends := AList.update ?rid (rs\<lparr>metrics := UMetrics u\<rparr>) (backends vs)\<rparr>"
  have s1: "map_of (services ?ctx1) ?vid = Some ?vs1"
    by (simp add: map_of_services_putBackend [OF svc])
  have b1: "map_of (backends ?vs1) ?rid = Some (rs\<lparr>metrics := UMetrics u\<rparr>)"
    by (simp add: update_conv')
  note upd = updateBackend_known [OF s1 b1]
  show ?thesis
    using svc rs up
    by (auto simp: processPulseUpdate_def Let_def upd putBackend_frame int32_of_float_floor
        split: option.splits)
qed

theorem C1_Up_witness:
  "fst (processPulseUpdate testEnv [(''vs'', ''rs'') \<mapsto> 12] (pulseUpdate StatusUp (1 / 2))
          (testContext virtualService 0)) = [(''vs'', ''rs'') \<mapsto> 12] \<and>
   calls (snd (processPulseUpdate testEnv [(''vs'', ''rs'') \<mapsto> 12] (pulseUpdate StatusUp (1 / 2))
          (testContext virtualService 0)))
     = [UpdateDestPort ''<nil>'' 80 ''<nil>'' 0 0 6 0] \<and>
   fst (processPulseUpdate testEnv [(''vs'', ''rs'') \<mapsto> 12] (pulseUpdate StatusUp 1)
          (testContext virtualService 12)) = Map.empty \<and>
   calls (snd (processPulseUpdate testEnv [(''vs'', ''rs'') \<mapsto> 12] (pulseUpdate StatusUp 1)
          (testContext virtualService 12)))
     = [UpdateDestPort ''<nil>'' 80 ''<nil>'' 0 0 12 0] \<and>
   fst (processPulseUpdate testEnv Map.empty (pulseUpdate StatusUp 1)
          (testContext virtualService 12)) = Map.empty \<and>
   calls (snd (processPulseUpdate testEnv Map.empty (pulseUpdate StatusUp 1)
          (testContext virtualService 12))) = []"
proof -
  have k: "key (Source (pulseUpdate st h)) = (''vs'', ''rs'')"
     "VsID (Source (pulseUpdate st h)) = ''vs''" "RsID (Source (pulseUpdate st h)) = ''rs''"
     "MStatus (UMetrics (pulseUpdate st h)) = st" "MHealth (UMetrics (pulseUpdate st h)) = h" for st h
    by (simp_all add: key_def pulseUpdate_def)
  have b: "map_of (backends \<lparr>vsID = [], options = virtualService, svc = zeroSvc,
              backends = [(''rs'', testBackend w)]\<rparr>) ''rs'' = Some (testBackend w)" for w
    by simp
  have c: "calls (testContext virtualService w) = []" for w
    by (simp add: testContext_def newRoutineContext_def)
  have v: "IPString testEnv (host virtualService) = ''<nil>''" "Port virtualService = 80"
    "protocol virtualService = 0" "methodID virtualService = 0"
    "IPString testEnv (b_host (boptions (testBackend w))) = ''<nil>''"
    "bPort (boptions (testBackend w)) = 0" "weight (boptions (testBackend w)) = w" for w
    by (simp_all add: virtualService_def testEnv_def testBackend_def)
  have f: "fl testEnv x = x" "int32_of_float 6 = 6" "int32_of_float 12 = 12" for x
    by (simp_all add: int32_of_float_def testEnv_simps)
  note t1 = C1_Up [where env = testEnv and ctx = "testContext virtualService 0"
      and u = "pulseUpdate StatusUp (1 / 2)" and stash = "[(''vs'', ''rs'') \<mapsto> 12]",
      unfolded k, OF testContext_service b refl]
  note t2 = C1_Up [where env = testEnv and ctx = "testContext virtualService 12"
      and u = "pulseUpdate StatusUp 1" and stash = "[(''vs'', ''rs'') \<mapsto> 12]",
      unfolded k, OF testContext_service b refl]
  note t3 = C1_Up [where env = testEnv and ctx = "testContext virtualService 12"
      and u = "pulseUpdate StatusUp 1" and stash = "Map.empty",
      unfolded k, OF testContext_service b refl]
  show ?thesis
    using t1 t2 t3
    by (simp add: Let_def k c v f testEnv_accepts putBackend_frame)
qed



subsection \<open>GetService\<close>

lemma foldl_health:
  "foldl (\<lambda>h (rsKey, rs). fl env (h + GetHealth rs)) a bs
     = foldl (\<lambda>h rs. fl env (h + MHealth (metrics rs))) a (map snd bs)"
  by (induction bs arbitrary: a) (auto simp: GetHealth_def)

lemma foldl_exact:
  "foldl (\<lambda>h rs. h + MHealth (metrics rs)) a bs
     = a + sum_list (map (\<lambda>rs. MHealth (metrics rs)) bs)"
  by (induction bs arbitrary: a) auto

lemma foldl_keys:
  "foldl (\<lambda>ks (rsKey, rs). ks @ [rsKey]) acc bs = acc @ map fst bs"
  by (induction bs arbitrary: acc) auto

lemma uint16_len:
  assumes "n < 65536"
  shows "unat (of_nat n :: 16 word) = n" and "((of_nat n :: 16 word) = 0) = (n = 0)"
proof -
  show u: "unat (of_nat n :: 16 word) = n"
    using assms by (simp add: unat_of_nat)
  show "((of_nat n :: 16 word) = 0) = (n = 0)"
  proof
    assume "(of_nat n :: 16 word) = 0"
    then have "unat (of_nat n :: 16 word) = 0" by simp
    with u show "n = 0" by simp
  next
    assume "n = 0"
    then show "(of_nat n :: 16 word) = 0" by simp
  qed
qed

lemma CalcServiceStat_small:
  assumes "length (backends vs) < 65536"
  shows "CalcServiceStat env vs =
     \<lparr>Options = options vs,
      Health = (if backends vs = [] then 0
                else fl env (foldl (\<lambda>h rs. fl env (h + MHealth (metrics rs))) 0 (map snd (backends vs))
                               / real (length (backends vs)))),
      Backends = map fst (backends vs),
      BackendsCount = of_nat (length (backends vs)),
      FallBack = Fallback (options vs)\<rparr>"
  using uint16_len [OF assms]
  by (simp add: CalcServiceStat_def Let_def foldl_health foldl_keys)

lemma manyBackends_distinct: "distinct (map fst (manyBackends n))"
proof -
  have "inj_on (\<lambda>i. replicate i CHR ''r'') A" for A :: "nat set"
    by (rule inj_onI) (metis length_replicate)
  then show ?thesis
    by (simp add: manyBackends_def comp_def distinct_map)
qed

lemma length_manyBackends: "length (manyBackends n) = n"
  by (simp add: manyBackends_def)

lemma health_sum_manyBackends:
  "foldl (\<lambda>h (rsKey, rs). h + GetHealth rs) a (manyBackends n) = a + real n"
proof -
  have "foldl (\<lambda>h (rsKey, rs). h + GetHealth rs) a bs
      = a + sum_list (map (\<lambda>(rsKey, rs). MHealth (metrics rs)) bs)"
    for bs :: "(string \<times> Backend) list"
    by (induction bs arbitrary: a) (auto simp: GetHealth_def)
  then show ?thesis
    by (simp add: manyBackends_def comp_def sum_list_triv)
qed

text \<open>Below 65536 backends \<open>GetService\<close> does what it is meant to do: \<open>Backends\<close> lists the
  keys of the backend map, \<open>BackendsCount\<close> is their number, \<open>Health\<close> is 0 when there is
  no backend and otherwise the sum of the backends' healths, added in iteration order,
  divided by their number, and \<open>FallBack\<close> is the service's Fallback option. For an
  unknown service it returns \<open>ErrObjectNotFound\<close>.\<close>

lemma GetService_below_65536:
  fixes env :: "'k Env"
  shows
  "(map_of (services ctx) vid = None \<longrightarrow> GetService env ctx vid = Inl ErrObjectNotFound) \<and>
   (\<forall>vs. map_of (services ctx) vid = Some vs \<and> length (backends vs) < 65536 \<longrightarrow>
      (\<exists>info. GetService env ctx vid = Inr info \<and>
         Backends info = map fst (backends vs) \<and>
         unat (BackendsCount info) = length (backends vs) \<and>
         Health info =
           (if backends vs = [] then 0
            else fl env (foldl (\<lambda>h rs. fl env (h + MHealth (metrics rs))) 0 (map snd (backends vs))
                           / real (length (backends vs)))) \<and>
         ((\<forall>x. fl env x = x) \<longrightarrow>
            Health info =
              (if backends vs = [] then 0
               else sum_list (map (\<lambda>rs. MHealth (metrics rs)) (map snd (backends vs)))
                      / real (length (backends vs)))) \<and>
         FallBack info = Fallback (options vs)))"
  by (auto simp: GetService_def CalcServiceStat_small uint16_len foldl_exact)

lemma GetService_pairContext:
  "GetService testEnv pairContext ''no'' = Inl ErrObjectNotFound \<and>
   GetService testEnv pairContext ''vs'' =
     Inr \<lparr>Options = virtualServiceFallBack, Health = 3 / 4, Backends = [''a'', ''b''],
          BackendsCount = 2, FallBack = ''fb-zero-to-one''\<rparr>"
  by (simp add: GetService_def pairContext_def newRoutineContext_def CalcServiceStat_def
      GetHealth_def testEnv_simps virtualServiceFallBack_def)

text \<open>
  Claim C8 against the code. The count is \<open>uint16(len(vs.backends))\<close>. For a service with
  65536 backends under 65536 different keys, each of health 1, the count is 0: the code
  takes the branch that its comment keeps for a service without backends, and reports
  no backend, a count of 0 and health 0, where the claim has the 65536 keys, their
  number and the mean 1. With 65537 such backends the count is 1, and the sum of all
  healths is divided by 1: the reported health is 65537.
\<close>

theorem C8_GetService_failing_input:
  "length (manyBackends 65536) = 65536 \<and>
   distinct (map fst (manyBackends 65536)) \<and>
   GetService testEnv (crowdedContext 65536) ''vs'' =
     Inr \<lparr>Options = virtualService, Health = 0, Backends = [], BackendsCount = 0, FallBack = []\<rparr> \<and>
   (case GetService testEnv (crowdedContext 65537) ''vs'' of
      Inl err \<Rightarrow> False
    | Inr info \<Rightarrow> BackendsCount info = 1 \<and> Health info = 65537)"
proof -
  have a: "GetService testEnv (crowdedContext 65536) ''vs'' =
     Inr \<lparr>Options = virtualService, Health = 0, Backends = [], BackendsCount = 0, FallBack = []\<rparr>"
    by (simp add: GetService_def crowdedContext_def newRoutineContext_def CalcServiceStat_def
        length_manyBackends virtualService_def)
  have b: "(case GetService testEnv (crowdedContext 65537) ''vs'' of
      Inl err \<Rightarrow> False
    | Inr info \<Rightarrow> BackendsCount info = 1 \<and> Health info = 65537)"
    by (simp add: GetService_def crowdedContext_def newRoutineContext_def CalcServiceStat_def
        length_manyBackends health_sum_manyBackends testEnv_simps)
  show ?thesis
    using a b by (simp add: length_manyBackends manyBackends_distinct)
qed

subsection \<open>CreateBackend\<close>

lemma map_of_services_putService:
  "map_of (services (putService vid vs ctx)) = (map_of (services ctx))(vid \<mapsto> vs)"
  by (simp add: putService_def update_conv')

lemma putService_frame:
  "calls (putService vid vs ctx) = calls ctx \<and> kernel (putService vid vs ctx) = kernel ctx
   \<and> endpoint (putService vid vs ctx) = endpoint ctx
   \<and> vipInterface (putService vid vs ctx) = vipInterface ctx"
  by (simp add: putService_def)



lemma descriptor_validService:
  "descriptor testEnv validService =
     \<lparr>Proto = 6, VIP = ''127.0.0.1'', SPort = 80, Sched = ''sh'', Flags = None\<rparr>"
  by (simp add: descriptor_def validService_def virtualService_def testEnv_def schedFlags_def
      flagStep_def schedulerFlags_def IPPROTO_TCP_def)


lemma liveContext_service:
  "map_of (services (liveContext ds)) ''vs'' =
     Some \<lparr>vsID = ''vs'', options = validService, svc = descriptor testEnv validService,
           backends = []\<rparr>"
  by (simp add: liveContext_def)





subsection \<open>CreateService\<close>

lemma createBackend_no_creation:
  "filter isServiceCreation (calls (snd (createBackend env vid rid opts ctx)))
     = filter isServiceCreation (calls ctx)"
  by (auto simp: createBackend_def Let_def callIpvs_eq Service_CreateBackend_def putBackend_frame
      isServiceCreation_def split: option.splits sum.splits)

lemma createBackend_keeps_service:
  assumes "map_of (services ctx) v = Some vs"
  shows "\<exists>bs. map_of (services (snd (createBackend env vid rid opts ctx))) v = Some (vs\<lparr>backends := bs\<rparr>)"
proof -
  have same: "\<exists>bs. map_of (services ctx) v = Some (vs\<lparr>backends := bs\<rparr>)"
    using assms by (intro exI [of _ "backends vs"]) simp
  have put: "\<exists>bs. map_of (services (putBackend vid rid rs c)) v = Some (vs\<lparr>backends := bs\<rparr>)"
    if "map_of (services c) v = Some vs" for rs and c :: "'a Context"
    using that
    by (cases "map_of (services c) vid")
      (auto simp: putBackend_def map_of_services_putService intro: exI [of _ "backends vs"])
  show ?thesis
    using same put [of ctx] put [of "ctx\<lparr>kernel := k, calls := cs\<rparr>" for k cs] assms
    by (auto simp: createBackend_def Let_def callIpvs_eq Service_CreateBackend_def
        split: option.splits sum.splits)
qed

lemma createBackends_no_creation:
  "filter isServiceCreation (calls (snd (createBackends env vid bs ctx)))
     = filter isServiceCreation (calls ctx)"
proof (induction bs arbitrary: ctx)
  case Nil
  then show ?case by simp
next
  case (Cons b bs)
  obtain rid opts where b: "b = (rid, opts)" by (cases b)
  obtain r ctx1 where c: "createBackend env vid rid opts ctx = (r, ctx1)"
    by (cases "createBackend env vid rid opts ctx")
  have "filter isServiceCreation (calls ctx1) = filter isServiceCreation (calls ctx)"
    using createBackend_no_creation [of env vid rid opts ctx] by (simp add: c)
  then show ?case
    using Cons.IH [of ctx1] by (cases r) (simp_all add: b c)
qed

lemma createBackends_keeps_service:
  "map_of (services ctx) v = Some vs \<Longrightarrow>
   \<exists>bs'. map_of (services (snd (createBackends env vid bs ctx))) v = Some (vs\<lparr>backends := bs'\<rparr>)"
proof (induction bs arbitrary: ctx vs)
  case Nil
  then show ?case by (auto intro: exI [of _ "backends vs"])
next
  case (Cons b bs)
  obtain rid opts where b: "b = (rid, opts)" by (cases b)
  obtain r ctx1 where c: "createBackend env vid rid opts ctx = (r, ctx1)"
    by (cases "createBackend env vid rid opts ctx")
  from createBackend_keeps_service [OF Cons.prems, of env vid rid opts]
  obtain bs1 where s1: "map_of (services ctx1) v = Some (vs\<lparr>backends := bs1\<rparr>)"
    by (auto simp: c)
  show ?case
  proof (cases r)
    case (Inl e)
    then show ?thesis using s1 by (auto simp: b c)
  next
    case (Inr u)
    from Cons.IH [OF s1]
    show ?thesis by (simp add: b c Inr)
  qed
qed

lemma Validate_virtualService:
  "Validate testEnv None virtualService = Inr validService"
  by (simp add: Validate_def virtualService_def validService_def bindE_def validateHost_def
      validateProtocol_def validateShFlags_def validateFallback_def validateMethod_def
      testEnv_simps Let_def)

lemma Validate_virtualService_failEnv:
  "Validate failEnv None virtualService = Inr validService"
  by (simp add: Validate_def virtualService_def validService_def bindE_def validateHost_def
      validateProtocol_def validateShFlags_def validateFallback_def validateMethod_def
      failEnv_simps testEnv_simps Let_def)

text \<open>
  Claim C5, as the claim states it, fails in its first part: \<open>createService\<close> validates
  the options before it looks the service up, so for a vsID that is present and options
  without a port the result is \<open>ErrMissingEndpoint\<close>, not \<open>ErrObjectExists\<close>.
\<close>

theorem C5_CreateService_counterexample:
  "map_of (services (testContext virtualService 100)) ''vs'' \<noteq> None \<and>
   CreateService testEnv ''vs'' (serviceConfig (virtualService\<lparr>Port := 0\<rparr>) [])
      (testContext virtualService 100)
     = (Inl ErrMissingEndpoint, testContext virtualService 100)"
  by (simp add: testContext_service CreateService_def createService_def Validate_def
      serviceConfig_def)

text \<open>
  Claim C5, amended. \<open>CreateService\<close> returns the validation error, and changes nothing,
  when the options do not validate. With options that validate: for a vsID already in
  the Context it returns \<open>ErrObjectExists\<close> and changes nothing; for a new vsID whose
  derived descriptor matches a pool of the kernel it makes no \<open>AddService\<close> and no
  \<open>AddServiceWithFlags\<close> call, and the Service is in the map afterwards, whatever the
  creation of its backends returns; for a new vsID without such a pool, when the creation
  call fails it returns \<open>ErrIpvsSyscallFailed\<close> and the services map is as before.
\<close>

theorem C5_CreateService:
  fixes env :: "'k Env"
  shows
  "(\<forall>e. Validate env (endpoint ctx) (ServiceOptions cfg) = Inl e \<longrightarrow>
      CreateService env vid cfg ctx = (Inl e, ctx)) \<and>
   (\<forall>v. Validate env (endpoint ctx) (ServiceOptions cfg) = Inr v \<and> map_of (services ctx) vid \<noteq> None \<longrightarrow>
      CreateService env vid cfg ctx = (Inl ErrObjectExists, ctx)) \<and>
   (\<forall>v pool. Validate env (endpoint ctx) (ServiceOptions cfg) = Inr v \<and> map_of (services ctx) vid = None \<and>
        GetPoolForService env ctx (descriptor env (addVip env ctx v)) = Inr pool \<longrightarrow>
      filter isServiceCreation (calls (snd (CreateService env vid cfg ctx)))
        = filter isServiceCreation (calls ctx) \<and>
      (\<exists>bs. map_of (services (snd (CreateService env vid cfg ctx))) vid =
         Some \<lparr>vsID = vid, options = addVip env ctx v,
               svc = descriptor env (addVip env ctx v), backends = bs\<rparr>)) \<and>
   (\<forall>v e. Validate env (endpoint ctx) (ServiceOptions cfg) = Inr v \<and> map_of (services ctx) vid = None \<and>
        GetPoolForService env ctx (descriptor env (addVip env ctx v)) = Inl e \<and>
        \<not> fst (ipvs env (addServiceCall env (addVip env ctx v)) (kernel ctx)) \<longrightarrow>
      fst (CreateService env vid cfg ctx) = Inl ErrIpvsSyscallFailed \<and>
      services (snd (CreateService env vid cfg ctx)) = services ctx \<and>
      calls (snd (CreateService env vid cfg ctx)) = calls ctx @ [addServiceCall env (addVip env ctx v)])"
proof (intro conjI allI impI)
  fix e assume "Validate env (endpoint ctx) (ServiceOptions cfg) = Inl e"
  then show "CreateService env vid cfg ctx = (Inl e, ctx)"
    by (simp add: CreateService_def createService_def)
next
  fix v assume "Validate env (endpoint ctx) (ServiceOptions cfg) = Inr v \<and> map_of (services ctx) vid \<noteq> None"
  then show "CreateService env vid cfg ctx = (Inl ErrObjectExists, ctx)"
    by (auto simp: CreateService_def createService_def)
next
  fix v pool
  assume a: "Validate env (endpoint ctx) (ServiceOptions cfg) = Inr v \<and> map_of (services ctx) vid = None \<and>
        GetPoolForService env ctx (descriptor env (addVip env ctx v)) = Inr pool"
  let ?vs = "\<lparr>vsID = vid, options = addVip env ctx v,
               svc = descriptor env (addVip env ctx v), backends = []\<rparr>"
  have r: "CreateService env vid cfg ctx = createBackends env vid (ServiceBackends cfg) (putService vid ?vs ctx)"
    using a by (simp add: CreateService_def createService_def Let_def)
  show "filter isServiceCreation (calls (snd (CreateService env vid cfg ctx)))
        = filter isServiceCreation (calls ctx)"
    by (simp add: r createBackends_no_creation putService_frame)
  have "map_of (services (putService vid ?vs ctx)) vid = Some ?vs"
    by (simp add: map_of_services_putService)
  from createBackends_keeps_service [OF this, of env vid "ServiceBackends cfg"]
  show "\<exists>bs. map_of (services (snd (CreateService env vid cfg ctx))) vid =
         Some \<lparr>vsID = vid, options = addVip env ctx v,
               svc = descriptor env (addVip env ctx v), backends = bs\<rparr>"
    by (simp add: r)
next
  fix v e
  assume a: "Validate env (endpoint ctx) (ServiceOptions cfg) = Inr v \<and> map_of (services ctx) vid = None \<and>
        GetPoolForService env ctx (descriptor env (addVip env ctx v)) = Inl e \<and>
        \<not> fst (ipvs env (addServiceCall env (addVip env ctx v)) (kernel ctx))"
  then have r: "CreateService env vid cfg ctx =
      (Inl ErrIpvsSyscallFailed,
       ctx\<lparr>kernel := snd (ipvs env (addServiceCall env (addVip env ctx v)) (kernel ctx)),
           calls := calls ctx @ [addServiceCall env (addVip env ctx v)]\<rparr>)"
    by (simp add: CreateService_def createService_def Let_def callIpvs_eq)
  show "fst (CreateService env vid cfg ctx) = Inl ErrIpvsSyscallFailed"
    by (simp add: r)
  show "services (snd (CreateService env vid cfg ctx)) = services ctx"
    by (simp add: r)
  show "calls (snd (CreateService env vid cfg ctx)) = calls ctx @ [addServiceCall env (addVip env ctx v)]"
    by (simp add: r)
qed

theorem C5_CreateService_witness:
  "CreateService testEnv ''vs'' (serviceConfig (virtualService\<lparr>Port := 0\<rparr>) []) (liveContext [])
     = (Inl ErrMissingEndpoint, liveContext []) \<and>
   CreateService testEnv ''vs'' (serviceConfig virtualService []) (liveContext [])
     = (Inl ErrObjectExists, liveContext []) \<and>
   filter isServiceCreation
     (calls (snd (CreateService testEnv ''vs''
        (serviceConfig virtualService [(''rs'', newBackendOptions)]) orphanContext))) = [] \<and>
   (\<exists>bs. map_of (services (snd (CreateService testEnv ''vs''
        (serviceConfig virtualService [(''rs'', newBackendOptions)]) orphanContext))) ''vs''
      = Some \<lparr>vsID = ''vs'', options = validService,
              svc = descriptor testEnv validService, backends = bs\<rparr>) \<and>
   fst (CreateService failEnv ''vs'' (serviceConfig virtualService []) (newRoutineContext []))
     = Inl ErrIpvsSyscallFailed \<and>
   services (snd (CreateService failEnv ''vs'' (serviceConfig virtualService [])
      (newRoutineContext []))) = []"
proof -
  have e: "endpoint (liveContext []) = None" "endpoint orphanContext = None"
    "endpoint (newRoutineContext [] :: gnl2go_Pool list Context) = None"
    "calls orphanContext = []" "services (newRoutineContext [] :: gnl2go_Pool list Context) = []"
    "map_of (services orphanContext) ''vs'' = None"
    by (simp_all add: liveContext_def orphanContext_def newRoutineContext_def)
  note vf = Validate_virtualService_failEnv
  have v0: "Validate testEnv None (virtualService\<lparr>Port := 0\<rparr>) = Inl ErrMissingEndpoint"
    by (simp add: Validate_def)
  have av: "addVip testEnv orphanContext validService = validService"
    "addVip failEnv (newRoutineContext []) validService = validService"
    by (simp_all add: addVip_def orphanContext_def newRoutineContext_def)
  have p: "GetPoolForService testEnv orphanContext (descriptor testEnv validService) = Inr (validPool [])"
    by (simp add: GetPoolForService_def orphanContext_def validPool_def testEnv_simps)
  have pf: "GetPoolForService failEnv (newRoutineContext []) (descriptor failEnv validService)
      = Inl ErrServiceDoesntExist"
    by (simp add: GetPoolForService_def newRoutineContext_def failEnv_simps testEnv_simps)
  note t = C5_CreateService [where env = testEnv and vid = "''vs''"]
  note t1 = t [where cfg = "serviceConfig (virtualService\<lparr>Port := 0\<rparr>) []" and ctx = "liveContext []",
      THEN conjunct1, rule_format, unfolded serviceConfig_def e, simplified, OF v0]
  note t2 = t [where cfg = "serviceConfig virtualService []" and ctx = "liveContext []",
      THEN conjunct2, THEN conjunct1, rule_format, of validService]
  note t3 = t [where cfg = "serviceConfig virtualService [(''rs'', newBackendOptions)]" and ctx = orphanContext,
      THEN conjunct2, THEN conjunct2, THEN conjunct1, rule_format, of validService "validPool []"]
  note t4 = C5_CreateService [where env = failEnv and vid = "''vs''"
      and cfg = "serviceConfig virtualService []" and ctx = "newRoutineContext []",
      THEN conjunct2, THEN conjunct2, THEN conjunct2, rule_format, of validService ErrServiceDoesntExist]
  show ?thesis
    using t1 t2 t3 t4
    by (simp add: serviceConfig_def e Validate_virtualService vf av p pf liveContext_service
        failEnv_rejects)
qed

subsection \<open>CompareWith\<close>

lemma filter_absent_key:
  "map_of xs k = None \<Longrightarrow> filter (\<lambda>(k', v). k' \<noteq> k) xs = xs"
  by (induction xs) (auto split: if_splits)

lemma delete_as_filter: "AList.delete k xs = filter (\<lambda>(k', v). k' \<noteq> k) xs"
  by (induction xs) auto

lemma filter_keys_Cons:
  "filter (\<lambda>(k', v). k' \<notin> fst ` set ((k, x) # ys)) xs
     = filter (\<lambda>(k', v). k' \<notin> fst ` set ys) (filter (\<lambda>(k', v). k' \<noteq> k) xs)"
  by (induction xs) auto

lemma compareBackends_snd:
  "snd (compareBackends vid bs st) = filter (\<lambda>(k, v). k \<notin> fst ` set bs) (snd st)"
proof (induction bs arbitrary: st)
  case Nil
  then show ?case by simp
next
  case (Cons b bs)
  obtain rid rs where b: "b = (rid, rs)" by (cases b)
  show ?case
  proof (cases "map_of (snd st) rid")
    case None
    then show ?thesis
      by (simp add: b Cons.IH filter_keys_Cons filter_absent_key del: set_simps)
  next
    case (Some sbo)
    then show ?thesis
      by (simp add: b Cons.IH filter_keys_Cons delete_as_filter del: set_simps)
  qed
qed

lemma map_of_None_iff_key: "(map_of xs k = None) = (k \<notin> fst ` set xs)"
  by (simp add: map_of_eq_None_iff)

lemma compareBackends_in_sync:
  assumes "distinct (map fst bs)"
      and "\<forall>(rid, rs) \<in> set bs.
             \<exists>sbo. map_of sb rid = Some sbo \<and> CompareStoreOptionsBackend (boptions rs) sbo"
  shows "fst (compareBackends vid bs (sync, sb)) = sync"
  using assms
proof (induction bs arbitrary: sb)
  case Nil
  then show ?case by simp
next
  case (Cons b bs)
  obtain rid rs where b: "b = (rid, rs)" by (cases b)
  from Cons.prems(2) obtain sbo where
    sbo: "map_of sb rid = Some sbo" "CompareStoreOptionsBackend (boptions rs) sbo"
    by (auto simp: b)
  have rest: "\<forall>(r, x) \<in> set bs.
      \<exists>sbo. map_of (AList.delete rid sb) r = Some sbo \<and> CompareStoreOptionsBackend (boptions x) sbo"
  proof (intro ballI, clarify)
    fix r x assume m: "(r, x) \<in> set bs"
    with Cons.prems(1) have "r \<noteq> rid" by (force simp: b)
    moreover from Cons.prems(2) m obtain s where
      "map_of sb r = Some s" "CompareStoreOptionsBackend (boptions x) s" by (auto simp: b)
    ultimately show "\<exists>sbo. map_of (AList.delete rid sb) r = Some sbo
        \<and> CompareStoreOptionsBackend (boptions x) sbo"
      by (simp add: delete_conv')
  qed
  from Cons.prems(1) have d: "distinct (map fst bs)" by simp
  show ?case
    using Cons.IH [OF d rest] by (simp add: b sbo)
qed


lemma compareServices_store:
  "fst (snd (compareServices svcs (sync, store, m)))
     = filter (\<lambda>(k, v). k \<notin> fst ` set svcs) store"
proof (induction svcs arbitrary: sync store m)
  case Nil
  then show ?case by simp
next
  case (Cons s svcs)
  obtain vid vs where s: "s = (vid, vs)" by (cases s)
  show ?case
  proof (cases "map_of store vid")
    case None
    then show ?thesis
      by (simp add: s Cons.IH filter_keys_Cons filter_absent_key del: set_simps)
  next
    case (Some cfg)
    then show ?thesis
      by (simp add: s Cons.IH Let_def filter_keys_Cons delete_as_filter del: set_simps)
  qed
qed

lemma map_filter_cong_set:
  "(\<And>x. x \<in> set xs \<Longrightarrow> f x = g x) \<Longrightarrow> List.map_filter f xs = List.map_filter g xs"
  by (induction xs) (simp_all split: option.splits)

lemma compareServices_matched:
  assumes "distinct (map fst svcs)"
  shows "snd (snd (compareServices svcs (sync, store, m)))
     = m @ List.map_filter
             (\<lambda>(vid, vs). map_option (\<lambda>cfg. (vid, unmatchedBackends vs cfg)) (map_of store vid)) svcs"
  using assms
proof (induction svcs arbitrary: sync store m)
  case Nil
  then show ?case by simp
next
  case (Cons s svcs)
  obtain vid vs where s: "s = (vid, vs)" by (cases s)
  from Cons.prems have d: "distinct (map fst svcs)" and n: "vid \<notin> fst ` set svcs"
    by (simp_all add: s)
  show ?case
  proof (cases "map_of store vid")
    case None
    then show ?thesis
      by (simp add: s Cons.IH [OF d])
  next
    case (Some cfg)
    have same: "List.map_filter
          (\<lambda>(v, x). map_option (\<lambda>cfg. (v, unmatchedBackends x cfg)) (map_of (AList.delete vid store) v)) svcs
        = List.map_filter
          (\<lambda>(v, x). map_option (\<lambda>cfg. (v, unmatchedBackends x cfg)) (map_of store v)) svcs"
    proof (rule map_filter_cong_set)
      fix p assume "p \<in> set svcs"
      with n have "fst p \<noteq> vid" by force
      then show "(case p of (v, x) \<Rightarrow>
            map_option (\<lambda>cfg. (v, unmatchedBackends x cfg)) (map_of (AList.delete vid store) v))
          = (case p of (v, x) \<Rightarrow> map_option (\<lambda>cfg. (v, unmatchedBackends x cfg)) (map_of store v))"
        by (cases p) (simp add: delete_conv')
    qed
    have u: "cfg\<lparr>ServiceBackends := filter (\<lambda>(k, v). k \<notin> fst ` set (backends vs)) (ServiceBackends cfg)\<rparr>
        = unmatchedBackends vs cfg"
      by (simp add: unmatchedBackends_def map_of_None_iff_key)
    show ?thesis
      by (simp add: s Some Cons.IH [OF d] Let_def compareBackends_snd u same)
  qed
qed

lemma compareServices_in_sync:
  assumes "distinct (map fst svcs)"
      and "\<forall>(vid, vs) \<in> set svcs.
             distinct (map fst (backends vs)) \<and>
             (\<exists>cfg. map_of store vid = Some cfg \<and>
                CompareStoreOptions (options vs) (ServiceOptions cfg) \<and>
                fst ` set (ServiceBackends cfg) \<subseteq> fst ` set (backends vs) \<and>
                (\<forall>(rid, rs) \<in> set (backends vs).
                   \<exists>sbo. map_of (ServiceBackends cfg) rid = Some sbo \<and>
                         CompareStoreOptionsBackend (boptions rs) sbo))"
  shows "fst (compareServices svcs (sync, store, m)) = sync"
  using assms
proof (induction svcs arbitrary: store m)
  case Nil
  then show ?case by simp
next
  case (Cons s svcs)
  obtain vid vs where s: "s = (vid, vs)" by (cases s)
  from Cons.prems(1) have d: "distinct (map fst svcs)" and n: "vid \<notin> fst ` set svcs"
    by (simp_all add: s)
  from Cons.prems(2) obtain cfg where
    db: "distinct (map fst (backends vs))" and
    cfg: "map_of store vid = Some cfg" and
    eq: "CompareStoreOptions (options vs) (ServiceOptions cfg)" and
    sub: "fst ` set (ServiceBackends cfg) \<subseteq> fst ` set (backends vs)" and
    bs: "\<forall>(rid, rs) \<in> set (backends vs).
           \<exists>sbo. map_of (ServiceBackends cfg) rid = Some sbo \<and>
                 CompareStoreOptionsBackend (boptions rs) sbo"
    by (auto simp: s)
  have f: "fst (compareBackends vid (backends vs) (sync, ServiceBackends cfg)) = sync"
    by (rule compareBackends_in_sync [OF db bs])
  have "filter (\<lambda>(k, v). k \<notin> fst ` set (backends vs)) (ServiceBackends cfg) = []"
    using sub by (force simp: filter_empty_conv)
  then have e: "snd (compareBackends vid (backends vs) (sync, ServiceBackends cfg)) = []"
    by (simp add: compareBackends_snd)
  have rest: "\<forall>(v, x) \<in> set svcs.
             distinct (map fst (backends x)) \<and>
             (\<exists>cfg. map_of (AList.delete vid store) v = Some cfg \<and>
                CompareStoreOptions (options x) (ServiceOptions cfg) \<and>
                fst ` set (ServiceBackends cfg) \<subseteq> fst ` set (backends x) \<and>
                (\<forall>(rid, rs) \<in> set (backends x).
                   \<exists>sbo. map_of (ServiceBackends cfg) rid = Some sbo \<and>
                         CompareStoreOptionsBackend (boptions rs) sbo))"
  proof (intro ballI, clarify)
    fix v x assume m: "(v, x) \<in> set svcs"
    with n have "v \<noteq> vid" by force
    then have "map_of (AList.delete vid store) v = map_of store v"
      by (simp add: delete_conv')
    with Cons.prems(2) m
    show "distinct (map fst (backends x)) \<and>
             (\<exists>cfg. map_of (AList.delete vid store) v = Some cfg \<and>
                CompareStoreOptions (options x) (ServiceOptions cfg) \<and>
                fst ` set (ServiceBackends cfg) \<subseteq> fst ` set (backends x) \<and>
                (\<forall>(rid, rs) \<in> set (backends x).
                   \<exists>sbo. map_of (ServiceBackends cfg) rid = Some sbo \<and>
                         CompareStoreOptionsBackend (boptions rs) sbo))"
      by (auto simp: s)
  qed
  show ?case
    using Cons.IH [OF d rest]
    by (simp add: s cfg eq Let_def f e newBackends_def)
qed

lemma CompareStoreOptions_fields:
  "CompareStoreOptions a b =
     (Host a = Host b \<and> Port a = Port b \<and> Protocol a = Protocol b \<and> ShFlags a = ShFlags b \<and>
      LbMethod a = LbMethod b \<and> Persistent a = Persistent b \<and> Fallback a = Fallback b \<and>
      FwdMethod a = FwdMethod b \<and> MaxWeight a = MaxWeight b)"
  by (simp add: CompareStoreOptions_def)

lemma CompareStoreOptionsBackend_fields:
  "CompareStoreOptionsBackend a b = (bHost a = bHost b \<and> bPort a = bPort b)"
  by (simp add: CompareStoreOptionsBackend_def)

lemma key_in_keys: "(a, b) \<in> set xs \<Longrightarrow> a \<in> fst ` set xs"
  by force

lemma map_of_keyed_map:
  "map_of (map (\<lambda>(k, v). (k, f v)) xs) k = map_option f (map_of xs k)"
  by (induction xs) auto

lemma keys_keyed_map: "fst ` set (map (\<lambda>(k, v). (k, f v)) xs) = fst ` set xs"
  by (induction xs) auto

lemma snapshot_in_sync:
  assumes ds: "distinct (map fst (services ctx))"
      and db: "\<forall>(vid, vs) \<in> set (services ctx). distinct (map fst (backends vs))"
  shows "\<forall>(vid, vs) \<in> set (services ctx).
             distinct (map fst (backends vs)) \<and>
             (\<exists>cfg. map_of (snapshot ctx) vid = Some cfg \<and>
                CompareStoreOptions (options vs) (ServiceOptions cfg) \<and>
                fst ` set (ServiceBackends cfg) \<subseteq> fst ` set (backends vs) \<and>
                (\<forall>(rid, rs) \<in> set (backends vs).
                   \<exists>sbo. map_of (ServiceBackends cfg) rid = Some sbo \<and>
                         CompareStoreOptionsBackend (boptions rs) sbo))"
proof (intro ballI, clarify)
  fix vid vs assume m: "(vid, vs) \<in> set (services ctx)"
  from db m have d: "distinct (map fst (backends vs))" by auto
  from ds m have "map_of (services ctx) vid = Some vs" by simp
  then have c: "map_of (snapshot ctx) vid = Some (snapshotConfig vs)"
    by (simp add: snapshot_def map_of_keyed_map)
  have b: "\<exists>sbo. map_of (ServiceBackends (snapshotConfig vs)) rid = Some sbo \<and>
                 CompareStoreOptionsBackend (boptions rs) sbo"
    if "(rid, rs) \<in> set (backends vs)" for rid rs
  proof -
    from d that have "map_of (backends vs) rid = Some rs" by simp
    then show ?thesis
      by (simp add: snapshotConfig_def map_of_keyed_map CompareStoreOptionsBackend_fields)
  qed
  show "distinct (map fst (backends vs)) \<and>
             (\<exists>cfg. map_of (snapshot ctx) vid = Some cfg \<and>
                CompareStoreOptions (options vs) (ServiceOptions cfg) \<and>
                fst ` set (ServiceBackends cfg) \<subseteq> fst ` set (backends vs) \<and>
                (\<forall>(rid, rs) \<in> set (backends vs).
                   \<exists>sbo. map_of (ServiceBackends cfg) rid = Some sbo \<and>
                         CompareStoreOptionsBackend (boptions rs) sbo))"
    using d c b
    by (auto simp: snapshotConfig_def CompareStoreOptions_fields keys_keyed_map intro: key_in_keys)
qed

text \<open>The same outcome for every desired state that has the keys of the Context and
  agrees with it on the compared fields, whatever its other fields (the weight of a
  backend, the derived fields of the options) are.\<close>

lemma CompareWith_in_sync:
  assumes "distinct (map fst (services ctx))"
      and "\<forall>(vid, vs) \<in> set (services ctx).
             distinct (map fst (backends vs)) \<and>
             (\<exists>cfg. map_of store vid = Some cfg \<and>
                CompareStoreOptions (options vs) (ServiceOptions cfg) \<and>
                fst ` set (ServiceBackends cfg) \<subseteq> fst ` set (backends vs) \<and>
                (\<forall>(rid, rs) \<in> set (backends vs).
                   \<exists>sbo. map_of (ServiceBackends cfg) rid = Some sbo \<and>
                         CompareStoreOptionsBackend (boptions rs) sbo))"
      and "fst ` set store \<subseteq> fst ` set (services ctx)"
  shows "fst (CompareWith ctx store) = emptySyncStatus\<lparr>Status := ''ok''\<rparr>"
proof -
  let ?r = "compareServices (services ctx) (emptySyncStatus, store, [])"
  have f: "fst ?r = emptySyncStatus"
    by (rule compareServices_in_sync [OF assms(1) assms(2)])
  have "filter (\<lambda>(k, v). k \<notin> fst ` set (services ctx)) store = []"
    using assms(3) by (force simp: filter_empty_conv)
  then have s: "fst (snd ?r) = []"
    by (simp add: compareServices_store)
  show ?thesis
    using f s
    by (simp add: CompareWith_def split_beta Let_def)
      (simp add: CheckStatus_def emptySyncStatus_def)
qed

text \<open>
  Claim C7. For a Context whose maps are maps (no key twice), \<open>CompareWith\<close> on the
  snapshot of the Context returns the status \<open>ok\<close> with the six lists empty.
  \<open>CompareStoreOptions\<close> of two service options is the agreement of Host, Port,
  Protocol, ShFlags, LbMethod, Persistent, Fallback, FwdMethod and MaxWeight, and of two
  backend options the agreement of Host and Port.
\<close>

theorem C7_CompareWith_snapshot:
  assumes ds: "distinct (map fst (services ctx))"
      and db: "\<forall>(vid, vs) \<in> set (services ctx). distinct (map fst (backends vs))"
  shows "fst (CompareWith ctx (snapshot ctx)) = emptySyncStatus\<lparr>Status := ''ok''\<rparr> \<and>
     (\<forall>a b. CompareStoreOptions a b =
        (Host a = Host b \<and> Port a = Port b \<and> Protocol a = Protocol b \<and> ShFlags a = ShFlags b \<and>
         LbMethod a = LbMethod b \<and> Persistent a = Persistent b \<and> Fallback a = Fallback b \<and>
         FwdMethod a = FwdMethod b \<and> MaxWeight a = MaxWeight b)) \<and>
     (\<forall>a b. CompareStoreOptionsBackend a b = (bHost a = bHost b \<and> bPort a = bPort b))"
proof -
  let ?r = "compareServices (services ctx) (emptySyncStatus, snapshot ctx, [])"
  have f: "fst ?r = emptySyncStatus"
    by (rule compareServices_in_sync [OF ds snapshot_in_sync [OF ds db]])
  have "filter (\<lambda>(k, v). k \<notin> fst ` set (services ctx)) (snapshot ctx) = []"
    by (auto simp: filter_empty_conv snapshot_def dest: key_in_keys)
  then have s: "fst (snd ?r) = []"
    by (simp add: compareServices_store)
  have "fst (CompareWith ctx (snapshot ctx)) = emptySyncStatus\<lparr>Status := ''ok''\<rparr>"
    using f s
    by (simp add: CompareWith_def split_beta Let_def)
      (simp add: CheckStatus_def emptySyncStatus_def)
  then show ?thesis
    by (simp add: CompareStoreOptions_fields CompareStoreOptionsBackend_fields)
qed

theorem C7_CompareWith_snapshot_witness:
  "snapshot (testContext virtualService 100)
     = [(''vs'', serviceConfig virtualService [(''rs'', boptions (testBackend 100))])] \<and>
   fst (CompareWith (testContext virtualService 100) (snapshot (testContext virtualService 100)))
     = \<lparr>RemovedServices = [], RemovedBackends = [], UpdatedServices = [], UpdatedBackends = [],
        NewServices = [], NewBackends = [], Status = ''ok''\<rparr>"
proof -
  let ?ctx = "testContext virtualService 100"
  have ds: "distinct (map fst (services ?ctx))"
    by (simp add: testContext_def newRoutineContext_def)
  have db: "\<forall>(vid, vs) \<in> set (services ?ctx). distinct (map fst (backends vs))"
    by (simp add: testContext_def newRoutineContext_def)
  have sn: "snapshot ?ctx = [(''vs'', serviceConfig virtualService [(''rs'', boptions (testBackend 100))])]"
    by (simp add: snapshot_def snapshotConfig_def testContext_def newRoutineContext_def
        serviceConfig_def)
  from C7_CompareWith_snapshot [OF ds db] sn
  show ?thesis
    by (simp add: emptySyncStatus_def)
qed

text \<open>
  Claim C10. \<open>CompareWith\<close> changes its argument. After the call the map holds exactly the
  entries whose key is not the key of a running service, as they were. Every config that
  was matched against a running service is out of the map, and its \<open>ServiceBackends\<close>
  holds exactly the entries whose key the running service does not have. The Context is
  an argument only: the source assigns to nothing that is reachable from \<open>ctx\<close>, and the
  maps it deletes from have other types than the maps of the Context.
\<close>

theorem C10_CompareWith_frame:
  "fst (snd (CompareWith ctx store))
     = filter (\<lambda>(vid, cfg). map_of (services ctx) vid = None) store \<and>
   (distinct (map fst (services ctx)) \<longrightarrow>
      snd (snd (CompareWith ctx store))
        = List.map_filter
            (\<lambda>(vid, vs). map_option (\<lambda>cfg. (vid, unmatchedBackends vs cfg)) (map_of store vid))
            (services ctx))"
  by (simp add: CompareWith_def split_beta Let_def compareServices_store compareServices_matched
      map_of_None_iff_key)

theorem C10_CompareWith_frame_witness:
  "fst (snd (CompareWith (testContext virtualService 100)
      [(''vs'', serviceConfig virtualService [(''rs'', newBackendOptions), (''rs2'', newBackendOptions)]),
       (''new'', serviceConfig virtualService [])]))
     = [(''new'', serviceConfig virtualService [])] \<and>
   snd (snd (CompareWith (testContext virtualService 100)
      [(''vs'', serviceConfig virtualService [(''rs'', newBackendOptions), (''rs2'', newBackendOptions)]),
       (''new'', serviceConfig virtualService [])]))
     = [(''vs'', serviceConfig virtualService [(''rs2'', newBackendOptions)])]"
proof -
  let ?ctx = "testContext virtualService 100"
  let ?store = "[(''vs'', serviceConfig virtualService [(''rs'', newBackendOptions), (''rs2'', newBackendOptions)]),
       (''new'', serviceConfig virtualService [])]"
  have ds: "distinct (map fst (services ?ctx))"
    by (simp add: testContext_def newRoutineContext_def)
  have sv: "services ?ctx = [(''vs'', \<lparr>vsID = [], options = virtualService, svc = zeroSvc,
      backends = [(''rs'', testBackend 100)]\<rparr>)]"
    by (simp add: testContext_def newRoutineContext_def)
  from C10_CompareWith_frame [of ?ctx ?store] ds
  show ?thesis
    by (simp add: sv unmatchedBackends_def serviceConfig_def)
qed

subsection \<open>Synchronize\<close>

lemma Validate_port81:
  "Validate testEnv None (virtualService\<lparr>Port := 81\<rparr>) = Inr (validService\<lparr>Port := 81\<rparr>)"
  by (simp add: Validate_def virtualService_def validService_def bindE_def validateHost_def
      validateProtocol_def validateShFlags_def validateFallback_def validateMethod_def
      testEnv_simps Let_def)

lemma descriptor_port81:
  "descriptor testEnv (validService\<lparr>Port := 81\<rparr>) =
     \<lparr>Proto = 6, VIP = ''127.0.0.1'', SPort = 81, Sched = ''sh'', Flags = None\<rparr>"
  by (simp add: descriptor_def validService_def virtualService_def testEnv_simps schedFlags_def
      flagStep_def schedulerFlags_def IPPROTO_TCP_def)

lemma addServiceCall_port81:
  "addServiceCall testEnv (validService\<lparr>Port := 81\<rparr>) = AddService ''127.0.0.1'' 81 6 ''sh''"
  by (simp add: addServiceCall_def descriptor_port81 Let_def)
    (simp add: schedFlags_def validService_def virtualService_def flagStep_def schedulerFlags_def)

lemma validPool_eq:
  "validPool ds =
     \<lparr>PService = \<lparr>Proto = 6, VIP = ''127.0.0.1'', SPort = 80, Sched = ''sh'', Flags = None\<rparr>,
      Dests = ds\<rparr>"
  by (simp add: validPool_def descriptor_validService)

lemma validService_fields:
  "IPString testEnv (host validService) = ''127.0.0.1''"
  "AddrFamily testEnv (host validService) = 4"
  "Port validService = 80"
  "protocol validService = 6"
  "methodID validService = 0"
  "MaxWeight validService = 100"
  by (simp_all add: testEnv_simps validService_def virtualService_def IPPROTO_TCP_def
      IPVS_MASQUERADING_def)

lemma removeService_live:
  "removeService testEnv ''vs'' (liveContext []) = (Inr validService, afterRemove)"
  by (simp add: removeService_def liveContext_service callIpvs_eq validService_fields)
    (simp add: liveContext_def testEnv_simps validPool_eq poolMatches_def afterRemove_def)

lemma createBackend_recreated:
  "createBackend testEnv ''vs'' ''rs'' newBackendOptions recreated = (Inr (), recreatedWithBackend)"
proof -
  have v: "ValidateBackend testEnv newBackendOptions = Inr (newBackendOptions\<lparr>b_host := [10, 0, 0, 7]\<rparr>)"
    "ValidateBackend testEnv (newBackendOptions\<lparr>b_host := [10, 0, 0, 7]\<rparr>)
       = Inr (newBackendOptions\<lparr>b_host := [10, 0, 0, 7]\<rparr>)"
    by (simp_all add: ValidateBackend_def newBackendOptions_def testEnv_simps)
  have s: "map_of (services recreated) ''vs'' = Some (service81 [])"
    by (simp add: recreated_def)
  have p: "GetPoolForService testEnv recreated (svc (service81 [])) = Inr (pool81 [])"
    by (simp add: GetPoolForService_def recreated_def pool81_def service81_def testEnv_simps)
  have f: "options (service81 bs) = validService\<lparr>Port := 81\<rparr>" "backends (service81 bs) = bs" for bs
    by (simp_all add: service81_def)
  have e: "IPString testEnv [10, 0, 0, 7] = ''10.0.0.7''" "bPort (newBackendOptions\<lparr>b_host := x\<rparr>) = 8080"
    "AddrFamily testEnv [10, 0, 0, 7] = 4" "pulseNew testEnv h q"
    "b_host (newBackendOptions\<lparr>b_host := x\<rparr>) = x" "Dests (pool81 ds) = ds" for x h q ds
    by (simp_all add: testEnv_simps newBackendOptions_def pool81_def)
  show ?thesis
    by (simp add: createBackend_def s BackendExist_def v f e p validService_fields Let_def
        callIpvs_eq Service_CreateBackend_def)
      (simp add: recreated_def recreatedWithBackend_def putBackend_def putService_def
        testEnv_simps pool81_def poolMatches_def service81_def)
qed

lemma createService_afterRemove:
  "createService testEnv ''vs''
      (serviceConfig (virtualService\<lparr>Port := 81\<rparr>) [(''rs'', newBackendOptions)]) afterRemove
     = (Inr (), recreatedWithBackend)"
proof -
  have a: "endpoint afterRemove = None" "map_of (services afterRemove) ''vs'' = None"
    "addVip testEnv afterRemove x = x" for x
    by (simp_all add: afterRemove_def addVip_def)
  have p: "GetPoolForService testEnv afterRemove s = Inl ErrServiceDoesntExist" for s
    by (simp add: GetPoolForService_def afterRemove_def testEnv_simps)
  have k: "putService ''vs''
        \<lparr>vsID = ''vs'', options = validService\<lparr>Port := 81\<rparr>,
           svc = descriptor testEnv (validService\<lparr>Port := 81\<rparr>), backends = []\<rparr>
        (afterRemove\<lparr>kernel := snd (ipvs testEnv (AddService ''127.0.0.1'' 81 6 ''sh'') (kernel afterRemove)),
            calls := calls afterRemove @ [AddService ''127.0.0.1'' 81 6 ''sh'']\<rparr>) = recreated"
    by (simp add: putService_def afterRemove_def recreated_def service81_def descriptor_port81
        testEnv_simps pool81_def)
  show ?thesis
    by (simp add: createService_def serviceConfig_def a Validate_port81 p Let_def callIpvs_eq
        addServiceCall_port81 testEnv_accepts k createBackend_recreated)
qed

lemma createService_afterRemove_bare:
  "createService testEnv ''vs'' (serviceConfig (virtualService\<lparr>Port := 81\<rparr>) []) afterRemove
     = (Inr (), recreated)"
proof -
  have a: "endpoint afterRemove = None" "map_of (services afterRemove) ''vs'' = None"
    "addVip testEnv afterRemove x = x" for x
    by (simp_all add: afterRemove_def addVip_def)
  have p: "GetPoolForService testEnv afterRemove s = Inl ErrServiceDoesntExist" for s
    by (simp add: GetPoolForService_def afterRemove_def testEnv_simps)
  have k: "putService ''vs''
        \<lparr>vsID = ''vs'', options = validService\<lparr>Port := 81\<rparr>,
           svc = descriptor testEnv (validService\<lparr>Port := 81\<rparr>), backends = []\<rparr>
        (afterRemove\<lparr>kernel := snd (ipvs testEnv (AddService ''127.0.0.1'' 81 6 ''sh'') (kernel afterRemove)),
            calls := calls afterRemove @ [AddService ''127.0.0.1'' 81 6 ''sh'']\<rparr>) = recreated"
    by (simp add: putService_def afterRemove_def recreated_def service81_def descriptor_port81
        testEnv_simps pool81_def)
  show ?thesis
    by (simp add: createService_def serviceConfig_def a Validate_port81 p Let_def callIpvs_eq
        addServiceCall_port81 testEnv_accepts k)
qed

lemma unequal_port81: "\<not> CompareStoreOptions validService (virtualService\<lparr>Port := 81\<rparr>)"
  by (simp add: CompareStoreOptions_def validService_def virtualService_def)

text \<open>The same change of port with no desired backend: the run returns without error
  and leaves the service on port 81.\<close>

lemma Synchronize_port_change_bare:
  "Synchronize testEnv [(''vs'', serviceConfig (virtualService\<lparr>Port := 81\<rparr>) [])] (liveContext [])
     = (Inr (), recreated)"
proof -
  have k: "map fst (services (liveContext [])) = [''vs'']"
    by (simp add: liveContext_def)
  have s2: "syncService testEnv ''vs''
       \<lparr>vsID = ''vs'', options = validService, svc = descriptor testEnv validService, backends = []\<rparr>
       (serviceConfig (virtualService\<lparr>Port := 81\<rparr>) []) (liveContext [])
      = (Inr (), recreated)"
    by (simp add: syncService_def removeService_live createService_afterRemove_bare)
      (simp add: serviceConfig_def unequal_port81)
  show ?thesis
    by (simp add: Synchronize_def k liveContext_service s2)
qed

text \<open>
  Claim C3 against the code. The running service \<open>vs\<close> listens on port 80; the desired
  state has it on port 81 with one backend \<open>rs\<close>; every driver call succeeds.
  \<open>Synchronize\<close> removes the service and creates it again, and \<open>createService\<close> creates
  the backend with it. The loop that follows, over the desired backends that were not
  matched, then calls \<open>createBackend\<close> for \<open>rs\<close> once more, which fails: \<open>Synchronize\<close>
  returns \<open>ErrObjectExists\<close>, in the first round of its loop over the services.
\<close>

theorem C3_Synchronize_failing_input:
  "Synchronize testEnv
      [(''vs'', serviceConfig (virtualService\<lparr>Port := 81\<rparr>) [(''rs'', newBackendOptions)])]
      (liveContext [])
     = (Inl ErrObjectExists, recreatedWithBackend)"
proof -
  have k: "map fst (services (liveContext [])) = [''vs'']"
    by (simp add: liveContext_def)
  have b: "BackendExist (service81 [(''rs'', x)]) ''rs''" for x
    by (simp add: BackendExist_def service81_def)
  have dup: "createBackend testEnv ''vs'' ''rs'' newBackendOptions recreatedWithBackend
      = (Inl ErrObjectExists, recreatedWithBackend)"
    by (simp add: createBackend_def recreatedWithBackend_def b)
  have s1: "syncService testEnv ''vs''
       \<lparr>vsID = ''vs'', options = validService, svc = descriptor testEnv validService, backends = []\<rparr>
       (serviceConfig (virtualService\<lparr>Port := 81\<rparr>) [(''rs'', newBackendOptions)]) (liveContext [])
      = (Inl ErrObjectExists, recreatedWithBackend)"
    by (simp add: syncService_def unequal_port81 [unfolded serviceConfig_def] removeService_live
        createService_afterRemove dup)
      (simp add: serviceConfig_def unequal_port81 dup)
  show ?thesis
    by (simp add: Synchronize_def k liveContext_service s1)
qed

end
